theory Spec2Isabelle
  imports Main
begin

section \<open>Fuzzing statistics: the tracker facade and the SQLite statistics database\<close>

text \<open>
  The development embeds two Go files of package \<open>stats\<close>: the tracker facade
  (\<open>pkg/fuzz/stats/stats.go\<close>) and the SQLite statistics database (the file with
  \<open>sqliteStatsDatabase\<close>). Go's \<open>int\<close> is modelled as \<open>int\<close>: no arithmetic is done
  on identifiers or status codes, so wrap-around plays no role. The mutex of the database
  guards the three caches only; the model is sequential and leaves it out. The third
  file of the sources, the executor of the scan server, creates the tracker and closes it
  at the end of the scan, and is not modelled.
\<close>

subsection \<open>Errors\<close>

text \<open>
  \<open>Wrap err msg\<close> is \<open>errors.Wrap(err, msg)\<close> of \<open>github.com/pkg/errors\<close>.
  \<open>ErrNoRows\<close> is \<open>sql.ErrNoRows\<close>, what \<open>Row.Scan\<close> returns when the query produced
  no row; \<open>ErrDBClosed\<close> is the error of \<open>database/sql\<close> for a closed handle
  ("sql: database is closed"); \<open>ErrStore\<close> stands for any other error of the store
  (disk full, I/O error, lock timeout), \<open>ErrURL\<close> for an error of \<open>url.Parse\<close> and
  \<open>ErrOS\<close> for an error of the operating system on a file.
\<close>

datatype error =
    ErrNoRows
  | ErrDBClosed
  | ErrStore string
  | ErrURL string
  | ErrOS string
  | Wrap error string

subsection \<open>Events and the site name\<close>

record ComponentEvent =
  URL :: string
  ComponentType :: string
  ComponentName :: string
  siteName :: string

record ErrorEvent =
  TemplateID :: string
  URL :: string
  Error :: string

record FuzzingEvent =
  URL :: string
  ComponentType :: string
  ComponentName :: string
  TemplateID :: string
  PayloadSent :: string
  StatusCode :: int
  Matched :: bool
  RawRequest :: string
  RawResponse :: string
  Severity :: string
  siteName :: string

text \<open>
  The part of \<open>url.URL\<close> that \<open>getCorrectSiteName\<close> reads: the scheme and the
  \<open>Host\<close> field, which holds "host" or "host:port".
\<close>

record url_URL =
  Scheme :: string
  Host :: string

text \<open>
  \<open>URL.Port\<close> of Go's \<open>net/url\<close>: the part of \<open>Host\<close> after the last colon when
  that part is made of decimal digits only, and the empty string otherwise.
\<close>

primrec LastIndexByte :: "string \<Rightarrow> char \<Rightarrow> nat option" where
  "LastIndexByte [] c = None"
| "LastIndexByte (x # xs) c =
     (case LastIndexByte xs c of
        Some i \<Rightarrow> Some (Suc i)
      | None \<Rightarrow> if x = c then Some 0 else None)"

definition is_digit :: "char \<Rightarrow> bool" where
  "is_digit b \<longleftrightarrow> b \<in> set ''0123456789''"

definition validOptionalPort :: "string \<Rightarrow> bool" where
  "validOptionalPort port =
     (case port of
        [] \<Rightarrow> True
      | c # rest \<Rightarrow> c = CHR '':'' \<and> list_all is_digit rest)"

definition url_Port :: "url_URL \<Rightarrow> string" where
  "url_Port u =
     (case LastIndexByte (Host u) CHR '':'' of
        None \<Rightarrow> []
      | Some colon \<Rightarrow>
          if validOptionalPort (drop colon (Host u)) then drop (Suc colon) (Host u) else [])"

text \<open>
  \<open>URL.Hostname\<close> of Go's \<open>net/url\<close>: \<open>Host\<close> without the colon and the port,
  when the part from the last colon on is a colon and decimal digits only, and without
  the square brackets around an IPv6 literal. Port and host name are the two results of
  the library's \<open>splitHostPort\<close>.
\<close>

definition url_Hostname :: "url_URL \<Rightarrow> string" where
  "url_Hostname u =
     (let host =
        (case LastIndexByte (Host u) CHR '':'' of
           None \<Rightarrow> Host u
         | Some colon \<Rightarrow>
             if validOptionalPort (drop colon (Host u)) then take colon (Host u) else Host u)
      in if host \<noteq> [] \<and> hd host = CHR ''['' \<and> last host = CHR '']''
         then butlast (tl host) else host)"

text \<open>
  \<open>getCorrectSiteName\<close>. \<open>url.Parse\<close> belongs to the Go standard library; it is the
  parameter \<open>url_Parse\<close>, so every statement below holds for whatever the parser returns.
\<close>

definition getCorrectSiteName :: "(string \<Rightarrow> error + url_URL) \<Rightarrow> string \<Rightarrow> string" where
  "getCorrectSiteName url_Parse originalURL =
     (case url_Parse originalURL of
        Inl err \<Rightarrow> []
      | Inr parsed \<Rightarrow>
          if url_Port parsed = [] then
            (if Scheme parsed = ''https'' then Host parsed @ '':443''
             else if Scheme parsed = ''http'' then Host parsed @ '':80''
             else Host parsed)
          else Host parsed)"

subsection \<open>The cache key of a component\<close>

text \<open>\<open>fmt_d\<close> is the verb \<open>%d\<close> of \<open>fmt.Sprintf\<close> on an integer.\<close>

definition digit_char :: "nat \<Rightarrow> char" where
  "digit_char d = ''0123456789'' ! d"

function nat_digits :: "nat \<Rightarrow> string" where
  "nat_digits n = (if n < 10 then [digit_char n] else nat_digits (n div 10) @ [digit_char (n mod 10)])"
  by pat_completeness auto
termination
  by (relation "measure id") auto

declare nat_digits.simps [simp del]

definition fmt_d :: "int \<Rightarrow> string" where
  "fmt_d i = (if i < 0 then CHR ''-'' # nat_digits (nat (- i)) else nat_digits (nat i))"

text \<open>The key of \<open>getComponentID\<close>: \<open>fmt.Sprintf("%d:%s:%s", siteID, componentType, componentName)\<close>.\<close>

definition component_key :: "int \<Rightarrow> string \<Rightarrow> string \<Rightarrow> string" where
  "component_key siteID componentType componentName =
     fmt_d siteID @ '':'' @ componentType @ '':'' @ componentName"

subsection \<open>The durable store\<close>

text \<open>
  The store is SQLite behind Go's \<open>database/sql\<close>; neither is part of the repository.
  The model keeps what the SQL statements of the source rely on:
  \<^item> a transaction works on its own copy of the tables; \<open>Commit\<close> makes the copy the
    committed content and \<open>Rollback\<close> drops it;
  \<^item> \<open>INSERT OR IGNORE ... RETURNING id\<close> returns the identifier of the row it inserted;
    when a row with the same unique key exists the insert is ignored, no row is returned,
    and \<open>Row.Scan\<close> yields \<open>sql.ErrNoRows\<close>;
  \<^item> a new row gets the identifier one above the largest in its table, 1 in an empty table
    (no row is ever deleted, so this is also what \<open>AUTOINCREMENT\<close> gives);
  \<^item> \<open>Begin\<close> on a closed handle fails with \<open>ErrDBClosed\<close>;
  \<^item> any statement may fail for a reason of the store's own. The environment
    \<open>env :: stmt \<Rightarrow> error option\<close> of a call says which statements do, and with what error.
    A failed statement changes nothing, and a failed \<open>Commit\<close> leaves the committed content
    as it was.
\<close>

datatype stmt = StmtBegin | StmtSite | StmtTemplate | StmtComponent | StmtResult | StmtCommit

type_synonym store_env = "stmt \<Rightarrow> error option"

text \<open>
  Modelled from the spec: \<open>schema.sql\<close>, embedded by the source as
  \<open>dbSchemaCreateStatement\<close>, is missing. The spec gives the four tables:
  sites \<open>(site_id, site_name)\<close> with \<open>site_name\<close> unique, templates
  \<open>(template_id, template_name)\<close> with \<open>template_name\<close> unique, components
  \<open>(component_id, site_id, component_type, component_name)\<close> with the last three unique
  together, and fuzzing_results \<open>(id, component_id, template_id, payload_sent,
  status_code_received)\<close>. The connection string of the source does not switch foreign-key
  enforcement on, so no insert checks a reference.
\<close>

record tables =
  sites :: "(int \<times> string) list"
  templates :: "(int \<times> string) list"
  components :: "(int \<times> int \<times> string \<times> string) list"
  fuzzing_results :: "(int \<times> int \<times> int \<times> string \<times> int) list"

record sql_DB =
  committed :: tables
  closed :: bool

type_synonym sql_Tx = tables

definition next_id :: "int list \<Rightarrow> int" where
  "next_id ids = fold max ids 0 + 1"

definition db_Begin :: "store_env \<Rightarrow> sql_DB \<Rightarrow> error + sql_Tx" where
  "db_Begin env d =
     (if closed d then Inl ErrDBClosed
      else case env StmtBegin of Some err \<Rightarrow> Inl err | None \<Rightarrow> Inr (committed d))"

definition tx_Commit :: "store_env \<Rightarrow> sql_Tx \<Rightarrow> sql_DB \<Rightarrow> error option \<times> sql_DB" where
  "tx_Commit env tx d =
     (case env StmtCommit of
        Some err \<Rightarrow> (Some err, d)
      | None \<Rightarrow> (None, d\<lparr>committed := tx\<rparr>))"

definition tx_Rollback :: "sql_Tx \<Rightarrow> sql_DB \<Rightarrow> sql_DB" where
  "tx_Rollback tx d = d"

text \<open>\<open>INSERT OR IGNORE INTO sites (site_name) VALUES (?) RETURNING site_id\<close>, scanned.\<close>

definition insert_site :: "store_env \<Rightarrow> sql_Tx \<Rightarrow> string \<Rightarrow> (error + int) \<times> sql_Tx" where
  "insert_site env tx site_name =
     (case env StmtSite of
        Some err \<Rightarrow> (Inl err, tx)
      | None \<Rightarrow>
          if site_name \<in> set (map snd (sites tx)) then (Inl ErrNoRows, tx)
          else (let site_id = next_id (map fst (sites tx))
                in (Inr site_id, tx\<lparr>sites := sites tx @ [(site_id, site_name)]\<rparr>)))"

text \<open>\<open>INSERT OR IGNORE INTO templates (template_name) VALUES (?) RETURNING template_id\<close>, scanned.\<close>

definition insert_template :: "store_env \<Rightarrow> sql_Tx \<Rightarrow> string \<Rightarrow> (error + int) \<times> sql_Tx" where
  "insert_template env tx template_name =
     (case env StmtTemplate of
        Some err \<Rightarrow> (Inl err, tx)
      | None \<Rightarrow>
          if template_name \<in> set (map snd (templates tx)) then (Inl ErrNoRows, tx)
          else (let template_id = next_id (map fst (templates tx))
                in (Inr template_id, tx\<lparr>templates := templates tx @ [(template_id, template_name)]\<rparr>)))"

text \<open>
  \<open>INSERT OR IGNORE INTO components (site_id, component_type, component_name)
  VALUES (?, ?, ?) RETURNING component_id\<close>, scanned.
\<close>

definition insert_component ::
  "store_env \<Rightarrow> sql_Tx \<Rightarrow> int \<Rightarrow> string \<Rightarrow> string \<Rightarrow> (error + int) \<times> sql_Tx" where
  "insert_component env tx site_id component_type component_name =
     (case env StmtComponent of
        Some err \<Rightarrow> (Inl err, tx)
      | None \<Rightarrow>
          if (site_id, component_type, component_name) \<in> set (map snd (components tx))
          then (Inl ErrNoRows, tx)
          else (let component_id = next_id (map fst (components tx))
                in (Inr component_id,
                    tx\<lparr>components := components tx @
                         [(component_id, site_id, component_type, component_name)]\<rparr>)))"

subsection \<open>The SQLite statistics database\<close>

record sqliteStatsDatabase =
  db :: sql_DB
  scanName :: string
  siteIDCache :: "string \<rightharpoonup> int"
  templateIDCache :: "string \<rightharpoonup> int"
  componentIDCache :: "string \<rightharpoonup> int"

text \<open>
  \<open>newSqliteStatsDatabase\<close>. \<open>sql.Open\<close> and the execution of the schema are the store's;
  they are the parameters \<open>sql_Open\<close> (from the connection string) and \<open>exec_schema\<close>.
\<close>

definition newSqliteStatsDatabase ::
  "(string \<Rightarrow> error + sql_DB) \<Rightarrow> (sql_DB \<Rightarrow> error + sql_DB) \<Rightarrow> string \<Rightarrow> error + sqliteStatsDatabase" where
  "newSqliteStatsDatabase sql_Open exec_schema scan_name =
     (let filename = scan_name @ ''.stats.db'';
          connectionString = ''./'' @ filename @ ''?_journal_mode=WAL&_synchronous=NORMAL''
      in case sql_Open connectionString of
           Inl err \<Rightarrow> Inl (Wrap err ''could not open database'')
         | Inr d \<Rightarrow>
             (case exec_schema d of
                Inl err \<Rightarrow> Inl (Wrap err ''could not create schema'')
              | Inr d' \<Rightarrow>
                  Inr \<lparr>db = d', scanName = scan_name, siteIDCache = Map.empty,
                       templateIDCache = Map.empty, componentIDCache = Map.empty\<rparr>))"

text \<open>
  The file system is the set of the names of the files of the working directory.
  \<open>os.Remove\<close> deletes a name, or returns an error and leaves the files as they are:
  when there is no file of that name, and when the system refuses the removal (a missing
  permission, a file in use). The parameter \<open>remove_env\<close> says for which names the system
  refuses, and with what error.
\<close>

definition os_Remove ::
  "(string \<Rightarrow> error option) \<Rightarrow> string \<Rightarrow> string set \<Rightarrow> error option \<times> string set" where
  "os_Remove remove_env name fs =
     (if name \<notin> fs then (Some (ErrOS ''no such file or directory''), fs)
      else case remove_env name of
             Some err \<Rightarrow> (Some err, fs)
           | None \<Rightarrow> (None, fs - {name}))"

text \<open>
  \<open>Close\<close>. The error of \<open>db.Close\<close> is assigned to the blank identifier, and the handle
  is closed whatever it is; the two calls of \<open>os.Remove\<close> are statements, their errors are
  dropped.
\<close>

definition Close ::
  "(string \<Rightarrow> error option) \<Rightarrow> sqliteStatsDatabase \<Rightarrow> string set \<Rightarrow>
     sqliteStatsDatabase \<times> string set" where
  "Close remove_env s fs =
     (case os_Remove remove_env (scanName s @ ''.stats.db-wal'') fs of
        (err1, fs1) \<Rightarrow>
     (case os_Remove remove_env (scanName s @ ''.stats.db-shm'') fs1 of
        (err2, fs2) \<Rightarrow> (s\<lparr>db := (db s)\<lparr>closed := True\<rparr>\<rparr>, fs2)))"

definition getSiteID ::
  "store_env \<Rightarrow> sqliteStatsDatabase \<Rightarrow> sql_Tx \<Rightarrow> string \<Rightarrow> (error + int) \<times> sqliteStatsDatabase \<times> sql_Tx" where
  "getSiteID env s tx site_name =
     (case siteIDCache s site_name of
        Some id' \<Rightarrow> (Inr id', s, tx)
      | None \<Rightarrow>
          (case insert_site env tx site_name of
             (Inl err, tx') \<Rightarrow> (Inl err, s, tx')
           | (Inr siteID, tx') \<Rightarrow>
               (Inr siteID, s\<lparr>siteIDCache := (siteIDCache s)(site_name \<mapsto> siteID)\<rparr>, tx')))"

definition getTemplateID ::
  "store_env \<Rightarrow> sqliteStatsDatabase \<Rightarrow> sql_Tx \<Rightarrow> string \<Rightarrow> (error + int) \<times> sqliteStatsDatabase \<times> sql_Tx" where
  "getTemplateID env s tx templateName =
     (case templateIDCache s templateName of
        Some id' \<Rightarrow> (Inr id', s, tx)
      | None \<Rightarrow>
          (case insert_template env tx templateName of
             (Inl err, tx') \<Rightarrow> (Inl err, s, tx')
           | (Inr templateID, tx') \<Rightarrow>
               (Inr templateID, s\<lparr>templateIDCache := (templateIDCache s)(templateName \<mapsto> templateID)\<rparr>, tx')))"

definition getComponentID ::
  "store_env \<Rightarrow> sqliteStatsDatabase \<Rightarrow> sql_Tx \<Rightarrow> int \<Rightarrow> string \<Rightarrow> string \<Rightarrow>
     (error + int) \<times> sqliteStatsDatabase \<times> sql_Tx" where
  "getComponentID env s tx siteID componentType componentName =
     (let key = component_key siteID componentType componentName
      in case componentIDCache s key of
           Some id' \<Rightarrow> (Inr id', s, tx)
         | None \<Rightarrow>
             (case insert_component env tx siteID componentType componentName of
                (Inl err, tx') \<Rightarrow> (Inl err, s, tx')
              | (Inr componentID, tx') \<Rightarrow>
                  (Inr componentID, s\<lparr>componentIDCache := (componentIDCache s)(key \<mapsto> componentID)\<rparr>, tx')))"

text \<open>
  \<open>INSERT INTO fuzzing_results (component_id, template_id, payload_sent,
  status_code_received) VALUES (?, ?, ?, ?)\<close>.
\<close>

definition insertFuzzingResult ::
  "store_env \<Rightarrow> sql_Tx \<Rightarrow> int \<Rightarrow> int \<Rightarrow> string \<Rightarrow> int \<Rightarrow> error option \<times> sql_Tx" where
  "insertFuzzingResult env tx componentID templateID payloadSent statusCode =
     (case env StmtResult of
        Some err \<Rightarrow> (Some err, tx)
      | None \<Rightarrow>
          (None, tx\<lparr>fuzzing_results := fuzzing_results tx @
                     [(next_id (map fst (fuzzing_results tx)), componentID, templateID,
                       payloadSent, statusCode)]\<rparr>))"

text \<open>
  \<open>InsertRecord\<close>. The deferred function rolls the transaction back when the variable
  \<open>err\<close> of the function body is set on return: after a failed resolution and after a
  failed insert of the result. A failed \<open>Begin\<close> returns before the \<open>defer\<close>, and the
  error of \<open>Commit\<close> lives in the scope of its own \<open>if\<close>. The source reads the site name
  as \<open>event.SiteName\<close>; the event type of the facade spells the field \<open>siteName\<close>.
\<close>

definition InsertRecord ::
  "store_env \<Rightarrow> sqliteStatsDatabase \<Rightarrow> FuzzingEvent \<Rightarrow> error option \<times> sqliteStatsDatabase" where
  "InsertRecord env s event =
     (case db_Begin env (db s) of
        Inl err \<Rightarrow> (Some (Wrap err ''could not begin transaction''), s)
      | Inr tx \<Rightarrow>
     (case getSiteID env s tx (siteName event) of
        (Inl err, s1, tx1) \<Rightarrow>
          (Some (Wrap err ''could not get site_id''), s1\<lparr>db := tx_Rollback tx1 (db s1)\<rparr>)
      | (Inr siteID, s1, tx1) \<Rightarrow>
     (case getTemplateID env s1 tx1 (TemplateID event) of
        (Inl err, s2, tx2) \<Rightarrow>
          (Some (Wrap err ''could not get template_id''), s2\<lparr>db := tx_Rollback tx2 (db s2)\<rparr>)
      | (Inr templateID, s2, tx2) \<Rightarrow>
     (case getComponentID env s2 tx2 siteID (ComponentType event) (ComponentName event) of
        (Inl err, s3, tx3) \<Rightarrow>
          (Some (Wrap err ''could not get component_id''), s3\<lparr>db := tx_Rollback tx3 (db s3)\<rparr>)
      | (Inr componentID, s3, tx3) \<Rightarrow>
     (case insertFuzzingResult env tx3 componentID templateID (PayloadSent event) (StatusCode event) of
        (Some err, tx4) \<Rightarrow>
          (Some (Wrap err ''could not insert fuzzing result''), s3\<lparr>db := tx_Rollback tx4 (db s3)\<rparr>)
      | (None, tx4) \<Rightarrow>
     (case tx_Commit env tx4 (db s3) of
        (Some err, d) \<Rightarrow> (Some (Wrap err ''could not commit transaction''), s3\<lparr>db := d\<rparr>)
      | (None, d) \<Rightarrow> (None, s3\<lparr>db := d\<rparr>)))))))"

subsection \<open>The tracker facade\<close>

text \<open>
  The tracker of \<open>stats.go\<close> holds a \<open>*simpleStats\<close>, whose file is not part of the
  sources at hand. Its methods are parameters of the facade's functions: each takes the
  database and returns a result of any type \<open>'r\<close> with the database after the call. The
  facade's methods have no result in Go: the model returns \<open>()\<close> and the tracker.
\<close>

record 'db Tracker =
  database :: 'db

definition NewTracker :: "error + 'db \<Rightarrow> error + 'db Tracker" where
  "NewTracker NewSimpleStats =
     (case NewSimpleStats of
        Inl err \<Rightarrow> Inl (Wrap err ''could not create new tracker'')
      | Inr d \<Rightarrow> Inr \<lparr>database = d\<rparr>)"

definition Tracker_Close :: "('db \<Rightarrow> 'w \<Rightarrow> 'db \<times> 'w) \<Rightarrow> 'db Tracker \<Rightarrow> 'w \<Rightarrow> 'db Tracker \<times> 'w" where
  "Tracker_Close database_Close t w =
     (case database_Close (database t) w of (d, w') \<Rightarrow> (t\<lparr>database := d\<rparr>, w'))"

definition RecordResultEvent ::
  "(string \<Rightarrow> error + url_URL) \<Rightarrow> ('db \<Rightarrow> FuzzingEvent \<Rightarrow> 'r \<times> 'db) \<Rightarrow>
     'db Tracker \<Rightarrow> FuzzingEvent \<Rightarrow> unit \<times> 'db Tracker" where
  "RecordResultEvent url_Parse InsertMatchedRecord t event =
     (case InsertMatchedRecord (database t)
             (event\<lparr>siteName := getCorrectSiteName url_Parse (URL event)\<rparr>) of
        (r, d) \<Rightarrow> ((), t\<lparr>database := d\<rparr>))"

definition RecordComponentEvent ::
  "(string \<Rightarrow> error + url_URL) \<Rightarrow> ('db \<Rightarrow> ComponentEvent \<Rightarrow> 'r \<times> 'db) \<Rightarrow>
     'db Tracker \<Rightarrow> ComponentEvent \<Rightarrow> unit \<times> 'db Tracker" where
  "RecordComponentEvent url_Parse InsertComponent t event =
     (case InsertComponent (database t)
             (event\<lparr>ComponentEvent.siteName :=
                      getCorrectSiteName url_Parse (ComponentEvent.URL event)\<rparr>) of
        (r, d) \<Rightarrow> ((), t\<lparr>database := d\<rparr>))"

definition RecordErrorEvent ::
  "('db \<Rightarrow> ErrorEvent \<Rightarrow> 'r \<times> 'db) \<Rightarrow> 'db Tracker \<Rightarrow> ErrorEvent \<Rightarrow> unit \<times> 'db Tracker" where
  "RecordErrorEvent InsertError t event =
     (case InsertError (database t) event of (r, d) \<Rightarrow> ((), t\<lparr>database := d\<rparr>))"

subsection \<open>Sequences of calls\<close>

text \<open>\<open>InsertRecords\<close> runs \<open>InsertRecord\<close> on a list of events, each under its own environment.\<close>

fun InsertRecords ::
  "sqliteStatsDatabase \<Rightarrow> (store_env \<times> FuzzingEvent) list \<Rightarrow> error option list \<times> sqliteStatsDatabase" where
  "InsertRecords s [] = ([], s)"
| "InsertRecords s ((env, event) # calls) =
     (case InsertRecord env s event of
        (r, s') \<Rightarrow> (case InsertRecords s' calls of (rs, s'') \<Rightarrow> (r # rs, s'')))"

text \<open>
  \<open>later s s'\<close>: the database \<open>s'\<close> results from \<open>s\<close> by calls of its methods, in any
  number and order, under any environments, and by changes of the handle (the commit or
  the rollback that ends the transaction a resolver was called in).
\<close>

inductive later :: "sqliteStatsDatabase \<Rightarrow> sqliteStatsDatabase \<Rightarrow> bool" where
  later_refl: "later s s"
| later_getSiteID:
    "later s s' \<Longrightarrow> getSiteID env s' tx site_name = (r, s'', tx') \<Longrightarrow> later s s''"
| later_getTemplateID:
    "later s s' \<Longrightarrow> getTemplateID env s' tx templateName = (r, s'', tx') \<Longrightarrow> later s s''"
| later_getComponentID:
    "later s s' \<Longrightarrow> getComponentID env s' tx siteID componentType componentName = (r, s'', tx')
       \<Longrightarrow> later s s''"
| later_InsertRecord:
    "later s s' \<Longrightarrow> InsertRecord env s' event = (e, s'') \<Longrightarrow> later s s''"
| later_Close:
    "later s s' \<Longrightarrow> Close remove_env s' fs = (s'', fs') \<Longrightarrow> later s s''"
| later_db:
    "later s s' \<Longrightarrow> later s (s'\<lparr>db := d\<rparr>)"

subsection \<open>Concrete stores, environments and events\<close>

text \<open>The environment in which no statement fails, and the one in which one statement does.\<close>

definition no_fault :: store_env where
  "no_fault st = None"

definition fault_at :: "stmt \<Rightarrow> error \<Rightarrow> store_env" where
  "fault_at failing err st = (if st = failing then Some err else None)"

text \<open>The system that refuses no removal, and the one that refuses every removal.\<close>

definition no_remove_failure :: "string \<Rightarrow> error option" where
  "no_remove_failure name = None"


definition empty_tables :: tables where
  "empty_tables = \<lparr>sites = [], templates = [], components = [], fuzzing_results = []\<rparr>"

text \<open>
  The content of a database file in which one event has been recorded: site
  \<open>example.com:80\<close>, template \<open>sqli\<close>, the component \<open>login\<close> of type \<open>form\<close>.
\<close>

definition used_tables :: tables where
  "used_tables =
     \<lparr>sites = [(1, ''example.com:80'')], templates = [(1, ''sqli'')],
      components = [(1, 1, ''form'', ''login'')],
      fuzzing_results = [(1, 1, 1, ''payload'', 200)]\<rparr>"

text \<open>
  The database right after \<open>newSqliteStatsDatabase\<close>: the handle is open on the tables
  of the file, the caches are empty.
\<close>

definition opened :: "string \<Rightarrow> tables \<Rightarrow> sqliteStatsDatabase" where
  "opened scan_name t =
     \<lparr>db = \<lparr>committed = t, closed = False\<rparr>, scanName = scan_name, siteIDCache = Map.empty,
      templateIDCache = Map.empty, componentIDCache = Map.empty\<rparr>"

definition result_event :: "string \<Rightarrow> string \<Rightarrow> string \<Rightarrow> string \<Rightarrow> string \<Rightarrow> int \<Rightarrow> FuzzingEvent" where
  "result_event site template ctype cname payload status =
     \<lparr>URL = [], ComponentType = ctype, ComponentName = cname, TemplateID = template,
      PayloadSent = payload, StatusCode = status, Matched = False, RawRequest = [],
      RawResponse = [], Severity = [], siteName = site\<rparr>"

text \<open>
  A parser given by a table of seven URLs: scheme and \<open>Host\<close> as \<open>url.Parse\<close> returns
  them for six that it accepts (two of them with a colon and no port after the host,
  which \<open>url.Parse\<close> keeps in \<open>Host\<close>), its error for a host with an unclosed bracket.
  Any other string is outside the table and counts as an error.
\<close>

definition parse_sample :: "string \<Rightarrow> error + url_URL" where
  "parse_sample u =
     (if u = ''http://example.com/path'' then Inr \<lparr>Scheme = ''http'', Host = ''example.com''\<rparr>
      else if u = ''https://example.com/path'' then Inr \<lparr>Scheme = ''https'', Host = ''example.com''\<rparr>
      else if u = ''https://example.com:8443/path'' then Inr \<lparr>Scheme = ''https'', Host = ''example.com:8443''\<rparr>
      else if u = ''ftp://example.com/file'' then Inr \<lparr>Scheme = ''ftp'', Host = ''example.com''\<rparr>
      else if u = ''http://example.com:/path'' then Inr \<lparr>Scheme = ''http'', Host = ''example.com:''\<rparr>
      else if u = ''https://example.com:/path'' then Inr \<lparr>Scheme = ''https'', Host = ''example.com:''\<rparr>
      else if u = ''http://[::1/path'' then Inl (ErrURL ''missing bracket in host'')
      else Inl (ErrURL ''not in the table''))"

text \<open>
  Three events for one scan: the first and the third are recorded, the insert of the
  second event's result row fails in the store.
\<close>

definition scoping_calls :: "(store_env \<times> FuzzingEvent) list" where
  "scoping_calls =
     [(no_fault, result_event ''a.example:80'' ''sqli'' ''form'' ''search'' ''p0'' 200),
      (fault_at StmtResult (ErrStore ''disk full''),
       result_event ''b.example:80'' ''sqli'' ''form'' ''login'' ''p1'' 200),
      (no_fault, result_event ''a.example:80'' ''sqli'' ''form'' ''login'' ''p2'' 200)]"

text \<open>\<open>caches_le s s'\<close>: every entry of the three caches of \<open>s\<close> is an entry of \<open>s'\<close>.\<close>

definition caches_le :: "sqliteStatsDatabase \<Rightarrow> sqliteStatsDatabase \<Rightarrow> bool" where
  "caches_le s s' \<longleftrightarrow>
     siteIDCache s \<subseteq>\<^sub>m siteIDCache s' \<and> templateIDCache s \<subseteq>\<^sub>m templateIDCache s' \<and>
     componentIDCache s \<subseteq>\<^sub>m componentIDCache s'"

text \<open>
  \<open>components_backed s tx\<close>: the identifiers of the components table of the transaction
  are distinct, and every entry of the component cache is backed by a row of that table:
  the row has the cached identifier and the key of the entry.
\<close>

definition components_backed :: "sqliteStatsDatabase \<Rightarrow> sql_Tx \<Rightarrow> bool" where
  "components_backed s tx \<longleftrightarrow>
     distinct (map fst (components tx)) \<and>
     (\<forall>key componentID. componentIDCache s key = Some componentID \<longrightarrow>
        (\<exists>siteID componentType componentName.
           (componentID, siteID, componentType, componentName) \<in> set (components tx) \<and>
           component_key siteID componentType componentName = key))"

section \<open>Properties\<close>

lemmas store_defs = db_Begin_def tx_Commit_def tx_Rollback_def insert_site_def insert_template_def
  insert_component_def insertFuzzingResult_def next_id_def

lemmas resolver_defs = getSiteID_def getTemplateID_def getComponentID_def

lemmas scenario_defs = no_fault_def fault_at_def empty_tables_def used_tables_def opened_def
  result_event_def

lemmas key_defs = component_key_def fmt_d_def nat_digits.simps digit_char_def

subsection \<open>The port of a host\<close>

lemmas port_defs = url_Port_def validOptionalPort_def is_digit_def

lemma LastIndexByte_Some: "LastIndexByte xs c = Some i \<Longrightarrow> i < length xs \<and> xs ! i = c"
  by (induction xs arbitrary: i) (auto split: option.splits if_splits)

lemma url_Port_split:
  assumes "url_Port p \<noteq> []"
  shows "\<exists>h. Host p = h @ '':'' @ url_Port p"
proof -
  from assms obtain colon where c: "LastIndexByte (Host p) CHR '':'' = Some colon"
    and port: "url_Port p = drop (Suc colon) (Host p)"
    by (auto simp: url_Port_def split: option.splits if_splits)
  from LastIndexByte_Some [OF c]
  have "Host p = take colon (Host p) @ CHR '':'' # drop (Suc colon) (Host p)"
    by (metis id_take_nth_drop)
  with port show ?thesis by auto
qed

subsection \<open>Decimal digits and the component key\<close>

lemma digit_char_inj: "a < 10 \<Longrightarrow> b < 10 \<Longrightarrow> digit_char a = digit_char b \<Longrightarrow> a = b"
proof -
  assume a: "a < 10" and b: "b < 10" and e: "digit_char a = digit_char b"
  have d: "distinct ''0123456789''" by simp
  have l: "length ''0123456789'' = 10" by simp
  from e have "''0123456789'' ! a = ''0123456789'' ! b" by (simp only: digit_char_def)
  with d a b l show "a = b" by (metis nth_eq_iff_index_eq)
qed

lemma digit_char_is_digit: "d < 10 \<Longrightarrow> is_digit (digit_char d)"
proof -
  assume "d < 10"
  then have "d < length ''0123456789''" by simp
  then have "''0123456789'' ! d \<in> set ''0123456789''" by (rule nth_mem)
  then show ?thesis by (simp only: is_digit_def digit_char_def)
qed

lemma nat_digits_all_digits: "list_all is_digit (nat_digits n)"
proof (induction n rule: nat_digits.induct)
  case (1 n)
  show ?case
  proof (cases "n < 10")
    case True
    then show ?thesis by (subst nat_digits.simps) (simp add: digit_char_is_digit)
  next
    case False
    with 1 show ?thesis by (subst nat_digits.simps) (simp add: digit_char_is_digit)
  qed
qed

lemma nat_digits_not_Nil: "nat_digits n \<noteq> []"
  by (subst nat_digits.simps) simp

lemma nat_digits_inj: "nat_digits a = nat_digits b \<Longrightarrow> a = b"
proof (induction a arbitrary: b rule: nat_digits.induct)
  case (1 n)
  show ?case
  proof (cases "n < 10")
    case True
    then have n: "nat_digits n = [digit_char n]" by (subst nat_digits.simps) simp
    have "b < 10"
    proof (rule ccontr)
      assume "\<not> b < 10"
      then have "nat_digits b = nat_digits (b div 10) @ [digit_char (b mod 10)]"
        by (subst nat_digits.simps) simp
      with n "1.prems" nat_digits_not_Nil [of "b div 10"] show False by simp
    qed
    then have "nat_digits b = [digit_char b]" by (subst nat_digits.simps) simp
    with n "1.prems" True \<open>b < 10\<close> show ?thesis by (simp add: digit_char_inj)
  next
    case False
    then have n: "nat_digits n = nat_digits (n div 10) @ [digit_char (n mod 10)]"
      by (subst nat_digits.simps) simp
    have "\<not> b < 10"
    proof
      assume "b < 10"
      then have "nat_digits b = [digit_char b]" by (subst nat_digits.simps) simp
      with n "1.prems" nat_digits_not_Nil [of "n div 10"] show False by simp
    qed
    then have b: "nat_digits b = nat_digits (b div 10) @ [digit_char (b mod 10)]"
      by (subst nat_digits.simps) simp
    from n b "1.prems" have e1: "nat_digits (n div 10) = nat_digits (b div 10)"
      and e2: "digit_char (n mod 10) = digit_char (b mod 10)" by simp_all
    from "1.IH" [OF False e1] have d: "n div 10 = b div 10" .
    from e2 have m: "n mod 10 = b mod 10" by (simp add: digit_char_inj)
    from d m show ?thesis by (metis div_mult_mod_eq)
  qed
qed

lemma is_digit_not_colon: "is_digit c \<Longrightarrow> c \<noteq> CHR '':''"
  by (auto simp: is_digit_def)

lemma is_digit_not_minus: "is_digit c \<Longrightarrow> c \<noteq> CHR ''-''"
  by (auto simp: is_digit_def)

lemma fmt_d_no_colon: "CHR '':'' \<notin> set (fmt_d i)"
  using nat_digits_all_digits [of "nat i"] nat_digits_all_digits [of "nat (- i)"]
  by (auto simp: fmt_d_def list_all_iff dest: is_digit_not_colon)

lemma fmt_d_inj: "fmt_d i = fmt_d j \<Longrightarrow> i = j"
proof -
  assume e: "fmt_d i = fmt_d j"
  have hd_digit: "\<And>n. hd (nat_digits n) \<noteq> CHR ''-''"
  proof -
    fix n
    have "hd (nat_digits n) \<in> set (nat_digits n)" using nat_digits_not_Nil by simp
    with nat_digits_all_digits [of n] have "is_digit (hd (nat_digits n))"
      by (simp add: list_all_iff)
    then show "hd (nat_digits n) \<noteq> CHR ''-''" by (rule is_digit_not_minus)
  qed
  consider "i < 0" "j < 0" | "i < 0" "\<not> j < 0" | "\<not> i < 0" "j < 0" | "\<not> i < 0" "\<not> j < 0" by blast
  then show "i = j"
  proof cases
    case 1
    with e have "nat_digits (nat (- i)) = nat_digits (nat (- j))" by (simp add: fmt_d_def)
    then have "nat (- i) = nat (- j)" by (rule nat_digits_inj)
    with 1 show ?thesis by simp
  next
    case 2
    with e have "CHR ''-'' # nat_digits (nat (- i)) = nat_digits (nat j)" by (simp add: fmt_d_def)
    then have "hd (nat_digits (nat j)) = CHR ''-''" by (metis list.sel(1))
    with hd_digit show ?thesis by blast
  next
    case 3
    with e have "CHR ''-'' # nat_digits (nat (- j)) = nat_digits (nat i)" by (simp add: fmt_d_def)
    then have "hd (nat_digits (nat i)) = CHR ''-''" by (metis list.sel(1))
    with hd_digit show ?thesis by blast
  next
    case 4
    with e have "nat_digits (nat i) = nat_digits (nat j)" by (simp add: fmt_d_def)
    then have "nat i = nat j" by (rule nat_digits_inj)
    with 4 show ?thesis by simp
  qed
qed

lemma split_at_first:
  "c \<notin> set a \<Longrightarrow> c \<notin> set a' \<Longrightarrow> a @ c # r = a' @ c # r' \<Longrightarrow> a = a' \<and> r = r'"
proof (induction a arbitrary: a')
  case Nil
  then show ?case by (cases a') auto
next
  case (Cons x a)
  then show ?case by (cases a') auto
qed

lemma component_key_inj:
  assumes "CHR '':'' \<notin> set t" "CHR '':'' \<notin> set t'"
    and "component_key i t n = component_key i' t' n'"
  shows "i = i' \<and> t = t' \<and> n = n'"
proof -
  from assms(3) have e: "fmt_d i @ CHR '':'' # (t @ CHR '':'' # n) = fmt_d i' @ CHR '':'' # (t' @ CHR '':'' # n')"
    by (simp add: component_key_def)
  from split_at_first [OF fmt_d_no_colon fmt_d_no_colon e]
  have i: "fmt_d i = fmt_d i'" and r: "t @ CHR '':'' # n = t' @ CHR '':'' # n'" by simp_all
  from split_at_first [OF assms(1) assms(2) r] fmt_d_inj [OF i] show ?thesis by simp
qed

lemma component_key_site_inj:
  "component_key i t n = component_key i' t n \<Longrightarrow> i = i'"
  by (auto simp: component_key_def dest: fmt_d_inj)

lemma component_key_collision:
  assumes "CHR '':'' \<in> set t"
  shows "\<exists>t' n'. (t', n') \<noteq> (t, n) \<and> component_key i t' n' = component_key i t n"
proof -
  from assms obtain a b where t: "t = a @ CHR '':'' # b" by (auto dest: split_list)
  have "component_key i a (b @ CHR '':'' # n) = component_key i t n"
    by (simp add: component_key_def t)
  moreover have "a \<noteq> t" using t by simp
  ultimately show ?thesis by blast
qed

subsection \<open>The resolvers leave the handle alone and only add to the caches\<close>

lemma getSiteID_db: "getSiteID env s tx k = (r, s', tx') \<Longrightarrow> db s' = db s"
  by (auto simp: getSiteID_def split: option.splits prod.splits sum.splits)

lemma getTemplateID_db: "getTemplateID env s tx k = (r, s', tx') \<Longrightarrow> db s' = db s"
  by (auto simp: getTemplateID_def split: option.splits prod.splits sum.splits)

lemma getComponentID_db: "getComponentID env s tx i t n = (r, s', tx') \<Longrightarrow> db s' = db s"
  by (auto simp: getComponentID_def Let_def split: option.splits prod.splits sum.splits)

lemma caches_le_refl: "caches_le s s"
  by (simp add: caches_le_def)

lemma caches_le_trans: "caches_le s s' \<Longrightarrow> caches_le s' s'' \<Longrightarrow> caches_le s s''"
  unfolding caches_le_def by (blast intro: map_le_trans)

lemma getSiteID_caches: "getSiteID env s tx k = (r, s', tx') \<Longrightarrow> caches_le s s'"
  by (auto simp: getSiteID_def caches_le_def map_le_def split: option.splits prod.splits sum.splits)

lemma getTemplateID_caches: "getTemplateID env s tx k = (r, s', tx') \<Longrightarrow> caches_le s s'"
  by (auto simp: getTemplateID_def caches_le_def map_le_def split: option.splits prod.splits sum.splits)

lemma getComponentID_caches: "getComponentID env s tx i t n = (r, s', tx') \<Longrightarrow> caches_le s s'"
  by (auto simp: getComponentID_def Let_def caches_le_def map_le_def
        split: option.splits prod.splits sum.splits)

lemma caches_le_db: "caches_le s s' \<Longrightarrow> caches_le s (s'\<lparr>db := d\<rparr>)"
  by (simp add: caches_le_def)

lemma InsertRecord_caches: "InsertRecord env s event = (e, s') \<Longrightarrow> caches_le s s'"
  unfolding InsertRecord_def
  by (auto split: sum.splits prod.splits option.splits
        intro!: caches_le_db caches_le_refl
        dest!: getSiteID_caches getTemplateID_caches getComponentID_caches
        elim: caches_le_trans)

lemma Close_caches: "Close remove_env s fs = (s', fs') \<Longrightarrow> caches_le s s'"
  by (auto simp: Close_def caches_le_def split: prod.splits)

lemma later_caches: "later s s' \<Longrightarrow> caches_le s s'"
proof (induction rule: later.induct)
  case (later_refl s)
  show ?case by (rule caches_le_refl)
next
  case (later_getSiteID s s' env tx site_name r s'' tx')
  then show ?case by (blast intro: caches_le_trans getSiteID_caches)
next
  case (later_getTemplateID s s' env tx templateName r s'' tx')
  then show ?case by (blast intro: caches_le_trans getTemplateID_caches)
next
  case (later_getComponentID s s' env tx siteID componentType componentName r s'' tx')
  then show ?case by (blast intro: caches_le_trans getComponentID_caches)
next
  case (later_InsertRecord s s' env event e s'')
  then show ?case by (blast intro: caches_le_trans InsertRecord_caches)
next
  case (later_Close s s' remove_env fs s'' fs')
  then show ?case by (blast intro: caches_le_trans Close_caches)
next
  case (later_db s s' d)
  then show ?case by (blast intro: caches_le_db)
qed

lemma getSiteID_cached: "getSiteID env s tx k = (Inr i, s', tx') \<Longrightarrow> siteIDCache s' k = Some i"
  by (auto simp: getSiteID_def split: option.splits prod.splits sum.splits)

lemma getTemplateID_cached: "getTemplateID env s tx k = (Inr i, s', tx') \<Longrightarrow> templateIDCache s' k = Some i"
  by (auto simp: getTemplateID_def split: option.splits prod.splits sum.splits)

lemma getComponentID_cached:
  "getComponentID env s tx sid t n = (Inr i, s', tx') \<Longrightarrow> componentIDCache s' (component_key sid t n) = Some i"
  by (auto simp: getComponentID_def Let_def split: option.splits prod.splits sum.splits)

lemma map_le_Some: "m \<subseteq>\<^sub>m m' \<Longrightarrow> m k = Some v \<Longrightarrow> m' k = Some v"
  by (metis domI map_le_def)

subsection \<open>C1: a cache miss on a key the store already holds\<close>

text \<open>
  The statement of a resolver returns the identifier of the row it inserts. When the key
  is in the table already, nothing is inserted and nothing is returned, so that the scan
  yields \<open>ErrNoRows\<close>: in an environment where the statement itself does not fail, a
  resolver that misses its cache on a key of the table returns this error, and changes
  neither the caches nor the transaction.
\<close>

lemma conflict_gives_ErrNoRows:
  "env StmtSite = None \<Longrightarrow> siteIDCache s k = None \<Longrightarrow> k \<in> set (map snd (sites tx))
     \<Longrightarrow> getSiteID env s tx k = (Inl ErrNoRows, s, tx)"
  "env StmtTemplate = None \<Longrightarrow> templateIDCache s k = None \<Longrightarrow> k \<in> set (map snd (templates tx))
     \<Longrightarrow> getTemplateID env s tx k = (Inl ErrNoRows, s, tx)"
  "env StmtComponent = None \<Longrightarrow> componentIDCache s (component_key i t n) = None
     \<Longrightarrow> (i, t, n) \<in> set (map snd (components tx))
     \<Longrightarrow> getComponentID env s tx i t n = (Inl ErrNoRows, s, tx)"
  by (simp_all add: resolver_defs insert_site_def insert_template_def insert_component_def)

text \<open>
  C1 (the claim: a resolution that misses the cache while a row with the same natural key
  exists in the store reads and returns the existing identifier instead of an error). On
  the code it is an error: a database opened with empty caches on a file that holds the
  site \<open>example.com:80\<close>, the template \<open>sqli\<close> and the component
  \<open>(1, form, login)\<close> answers \<open>ErrNoRows\<close> to the resolution of each of them, and
  \<open>InsertRecord\<close> of an event of that site fails with "could not get site_id".
\<close>

theorem existing_row_without_cache_entry_fails:
  "getSiteID no_fault (opened ''scan'' used_tables) used_tables ''example.com:80''
     = (Inl ErrNoRows, opened ''scan'' used_tables, used_tables) \<and>
   getTemplateID no_fault (opened ''scan'' used_tables) used_tables ''sqli''
     = (Inl ErrNoRows, opened ''scan'' used_tables, used_tables) \<and>
   getComponentID no_fault (opened ''scan'' used_tables) used_tables 1 ''form'' ''login''
     = (Inl ErrNoRows, opened ''scan'' used_tables, used_tables) \<and>
   InsertRecord no_fault (opened ''scan'' used_tables)
       (result_event ''example.com:80'' ''sqli'' ''form'' ''login'' ''payload'' 200)
     = (Some (Wrap ErrNoRows ''could not get site_id''), opened ''scan'' used_tables)"
  by (simp add: InsertRecord_def resolver_defs store_defs scenario_defs key_defs)

subsection \<open>C2: errors of the store and the caller of a record method\<close>

text \<open>
  C2, as amended: \<open>InsertRecord\<close> returns the error of the first step of the store
  that fails (begin, site, template, component, result row, commit), wrapped with the
  message that names the step. The record methods of the tracker have no result, so
  nothing of it reaches their caller.
\<close>

theorem InsertRecord_returns_wrapped_error:
  "(db_Begin env (db s) = Inl err0 \<longrightarrow>
      fst (InsertRecord env s event) = Some (Wrap err0 ''could not begin transaction'')) \<and>
   (db_Begin env (db s) = Inr tx \<and>
    getSiteID env s tx (siteName event) = (Inl err1, s1, tx1) \<longrightarrow>
      fst (InsertRecord env s event) = Some (Wrap err1 ''could not get site_id'')) \<and>
   (db_Begin env (db s) = Inr tx \<and>
    getSiteID env s tx (siteName event) = (Inr siteID, s1, tx1) \<and>
    getTemplateID env s1 tx1 (TemplateID event) = (Inl err2, s2, tx2) \<longrightarrow>
      fst (InsertRecord env s event) = Some (Wrap err2 ''could not get template_id'')) \<and>
   (db_Begin env (db s) = Inr tx \<and>
    getSiteID env s tx (siteName event) = (Inr siteID, s1, tx1) \<and>
    getTemplateID env s1 tx1 (TemplateID event) = (Inr templateID, s2, tx2) \<and>
    getComponentID env s2 tx2 siteID (ComponentType event) (ComponentName event) = (Inl err3, s3, tx3) \<longrightarrow>
      fst (InsertRecord env s event) = Some (Wrap err3 ''could not get component_id'')) \<and>
   (db_Begin env (db s) = Inr tx \<and>
    getSiteID env s tx (siteName event) = (Inr siteID, s1, tx1) \<and>
    getTemplateID env s1 tx1 (TemplateID event) = (Inr templateID, s2, tx2) \<and>
    getComponentID env s2 tx2 siteID (ComponentType event) (ComponentName event) = (Inr componentID, s3, tx3) \<and>
    insertFuzzingResult env tx3 componentID templateID (PayloadSent event) (StatusCode event) = (Some err4, tx4) \<longrightarrow>
      fst (InsertRecord env s event) = Some (Wrap err4 ''could not insert fuzzing result'')) \<and>
   (db_Begin env (db s) = Inr tx \<and>
    getSiteID env s tx (siteName event) = (Inr siteID, s1, tx1) \<and>
    getTemplateID env s1 tx1 (TemplateID event) = (Inr templateID, s2, tx2) \<and>
    getComponentID env s2 tx2 siteID (ComponentType event) (ComponentName event) = (Inr componentID, s3, tx3) \<and>
    insertFuzzingResult env tx3 componentID templateID (PayloadSent event) (StatusCode event) = (None, tx4) \<and>
    tx_Commit env tx4 (db s3) = (Some err5, d) \<longrightarrow>
      fst (InsertRecord env s event) = Some (Wrap err5 ''could not commit transaction''))"
  by (simp add: InsertRecord_def)

text \<open>
  C2, witness: on a new database, a failure of the store in each of the six steps in turn
  gives the error wrapped with the message of that step.
\<close>

theorem InsertRecord_returns_wrapped_error_witness:
  "fst (InsertRecord (fault_at StmtBegin (ErrStore ''disk full'')) (opened ''scan'' empty_tables)
         (result_event ''example.com:80'' ''sqli'' ''form'' ''login'' ''payload'' 200))
     = Some (Wrap (ErrStore ''disk full'') ''could not begin transaction'') \<and>
   fst (InsertRecord (fault_at StmtSite (ErrStore ''disk full'')) (opened ''scan'' empty_tables)
         (result_event ''example.com:80'' ''sqli'' ''form'' ''login'' ''payload'' 200))
     = Some (Wrap (ErrStore ''disk full'') ''could not get site_id'') \<and>
   fst (InsertRecord (fault_at StmtTemplate (ErrStore ''disk full'')) (opened ''scan'' empty_tables)
         (result_event ''example.com:80'' ''sqli'' ''form'' ''login'' ''payload'' 200))
     = Some (Wrap (ErrStore ''disk full'') ''could not get template_id'') \<and>
   fst (InsertRecord (fault_at StmtComponent (ErrStore ''disk full'')) (opened ''scan'' empty_tables)
         (result_event ''example.com:80'' ''sqli'' ''form'' ''login'' ''payload'' 200))
     = Some (Wrap (ErrStore ''disk full'') ''could not get component_id'') \<and>
   fst (InsertRecord (fault_at StmtResult (ErrStore ''disk full'')) (opened ''scan'' empty_tables)
         (result_event ''example.com:80'' ''sqli'' ''form'' ''login'' ''payload'' 200))
     = Some (Wrap (ErrStore ''disk full'') ''could not insert fuzzing result'') \<and>
   fst (InsertRecord (fault_at StmtCommit (ErrStore ''disk full'')) (opened ''scan'' empty_tables)
         (result_event ''example.com:80'' ''sqli'' ''form'' ''login'' ''payload'' 200))
     = Some (Wrap (ErrStore ''disk full'') ''could not commit transaction'')"
proof -
  let ?e = "ErrStore ''disk full''"
  let ?s0 = "opened ''scan'' empty_tables"
  let ?ev = "result_event ''example.com:80'' ''sqli'' ''form'' ''login'' ''payload'' 200"
  let ?s1 = "?s0\<lparr>siteIDCache := [''example.com:80'' \<mapsto> 1]\<rparr>"
  let ?tx1 = "empty_tables\<lparr>sites := [(1, ''example.com:80'')]\<rparr>"
  let ?s2 = "?s1\<lparr>templateIDCache := [''sqli'' \<mapsto> 1]\<rparr>"
  let ?tx2 = "?tx1\<lparr>templates := [(1, ''sqli'')]\<rparr>"
  let ?s3 = "?s2\<lparr>componentIDCache := [''1:form:login'' \<mapsto> 1]\<rparr>"
  let ?tx3 = "?tx2\<lparr>components := [(1, 1, ''form'', ''login'')]\<rparr>"
  let ?tx4 = "?tx3\<lparr>fuzzing_results := [(1, 1, 1, ''payload'', 200)]\<rparr>"
  note defs = resolver_defs store_defs scenario_defs key_defs
  have h0: "db_Begin (fault_at StmtBegin ?e) (db ?s0) = Inl ?e"
    by (simp add: defs)
  have c0: "fst (InsertRecord (fault_at StmtBegin ?e) ?s0 ?ev)
      = Some (Wrap ?e ''could not begin transaction'')"
    using InsertRecord_returns_wrapped_error [where env = "fault_at StmtBegin ?e" and s = ?s0
        and event = ?ev and ?err0.0 = ?e] h0
    by blast
  let ?env = "fault_at StmtSite ?e"
  have h1: "db_Begin ?env (db ?s0) = Inr empty_tables \<and>
      getSiteID ?env ?s0 empty_tables (siteName ?ev) = (Inl ?e, ?s0, empty_tables)"
    by (simp add: defs)
  have c1: "fst (InsertRecord ?env ?s0 ?ev) = Some (Wrap ?e ''could not get site_id'')"
    using InsertRecord_returns_wrapped_error [where env = ?env and s = ?s0 and event = ?ev
        and tx = empty_tables and ?err1.0 = ?e and ?s1.0 = ?s0 and ?tx1.0 = empty_tables] h1
    by blast
  let ?env = "fault_at StmtTemplate ?e"
  have h2: "db_Begin ?env (db ?s0) = Inr empty_tables \<and>
      getSiteID ?env ?s0 empty_tables (siteName ?ev) = (Inr 1, ?s1, ?tx1) \<and>
      getTemplateID ?env ?s1 ?tx1 (TemplateID ?ev) = (Inl ?e, ?s1, ?tx1)"
    by (simp add: defs)
  have c2: "fst (InsertRecord ?env ?s0 ?ev) = Some (Wrap ?e ''could not get template_id'')"
    using InsertRecord_returns_wrapped_error [where env = ?env and s = ?s0 and event = ?ev
        and tx = empty_tables and siteID = 1 and ?s1.0 = ?s1 and ?tx1.0 = ?tx1
        and ?err2.0 = ?e and ?s2.0 = ?s1 and ?tx2.0 = ?tx1] h2
    by blast
  let ?env = "fault_at StmtComponent ?e"
  have h3: "db_Begin ?env (db ?s0) = Inr empty_tables \<and>
      getSiteID ?env ?s0 empty_tables (siteName ?ev) = (Inr 1, ?s1, ?tx1) \<and>
      getTemplateID ?env ?s1 ?tx1 (TemplateID ?ev) = (Inr 1, ?s2, ?tx2) \<and>
      getComponentID ?env ?s2 ?tx2 1 (ComponentType ?ev) (ComponentName ?ev) = (Inl ?e, ?s2, ?tx2)"
    by (simp add: defs)
  have c3: "fst (InsertRecord ?env ?s0 ?ev) = Some (Wrap ?e ''could not get component_id'')"
    using InsertRecord_returns_wrapped_error [where env = ?env and s = ?s0 and event = ?ev
        and tx = empty_tables and siteID = 1 and ?s1.0 = ?s1 and ?tx1.0 = ?tx1
        and templateID = 1 and ?s2.0 = ?s2 and ?tx2.0 = ?tx2
        and ?err3.0 = ?e and ?s3.0 = ?s2 and ?tx3.0 = ?tx2] h3
    by blast
  let ?env = "fault_at StmtResult ?e"
  have h4: "db_Begin ?env (db ?s0) = Inr empty_tables \<and>
      getSiteID ?env ?s0 empty_tables (siteName ?ev) = (Inr 1, ?s1, ?tx1) \<and>
      getTemplateID ?env ?s1 ?tx1 (TemplateID ?ev) = (Inr 1, ?s2, ?tx2) \<and>
      getComponentID ?env ?s2 ?tx2 1 (ComponentType ?ev) (ComponentName ?ev) = (Inr 1, ?s3, ?tx3) \<and>
      insertFuzzingResult ?env ?tx3 1 1 (PayloadSent ?ev) (StatusCode ?ev) = (Some ?e, ?tx3)"
    by (simp add: defs)
  have c4: "fst (InsertRecord ?env ?s0 ?ev) = Some (Wrap ?e ''could not insert fuzzing result'')"
    using InsertRecord_returns_wrapped_error [where env = ?env and s = ?s0 and event = ?ev
        and tx = empty_tables and siteID = 1 and ?s1.0 = ?s1 and ?tx1.0 = ?tx1
        and templateID = 1 and ?s2.0 = ?s2 and ?tx2.0 = ?tx2
        and componentID = 1 and ?s3.0 = ?s3 and ?tx3.0 = ?tx3
        and ?err4.0 = ?e and ?tx4.0 = ?tx3] h4
    by blast
  let ?env = "fault_at StmtCommit ?e"
  have h5: "db_Begin ?env (db ?s0) = Inr empty_tables \<and>
      getSiteID ?env ?s0 empty_tables (siteName ?ev) = (Inr 1, ?s1, ?tx1) \<and>
      getTemplateID ?env ?s1 ?tx1 (TemplateID ?ev) = (Inr 1, ?s2, ?tx2) \<and>
      getComponentID ?env ?s2 ?tx2 1 (ComponentType ?ev) (ComponentName ?ev) = (Inr 1, ?s3, ?tx3) \<and>
      insertFuzzingResult ?env ?tx3 1 1 (PayloadSent ?ev) (StatusCode ?ev) = (None, ?tx4) \<and>
      tx_Commit ?env ?tx4 (db ?s3) = (Some ?e, db ?s3)"
    by (simp add: defs)
  have c5: "fst (InsertRecord ?env ?s0 ?ev) = Some (Wrap ?e ''could not commit transaction'')"
    using InsertRecord_returns_wrapped_error [where env = ?env and s = ?s0 and event = ?ev
        and tx = empty_tables and siteID = 1 and ?s1.0 = ?s1 and ?tx1.0 = ?tx1
        and templateID = 1 and ?s2.0 = ?s2 and ?tx2.0 = ?tx2
        and componentID = 1 and ?s3.0 = ?s3 and ?tx3.0 = ?tx3
        and ?tx4.0 = ?tx4 and ?err5.0 = ?e and d = "db ?s3"] h5
    by blast
  from c0 c1 c2 c3 c4 c5 show ?thesis by blast
qed

text \<open>
  C2, counterexample to the claim as stated (every error of the store during a record is
  returned to the caller of the record method): the insert of the result row fails, the
  database returns the wrapped error, and \<open>RecordResultEvent\<close> over that database
  returns \<open>()\<close> with the tracker, as it does for an event that is recorded.
\<close>

theorem RecordResultEvent_drops_error:
  "fst (InsertRecord (fault_at StmtResult (ErrStore ''disk full'')) (opened ''scan'' empty_tables)
         (result_event ''example.com:80'' ''sqli'' ''form'' ''login'' ''payload'' 200))
     = Some (Wrap (ErrStore ''disk full'') ''could not insert fuzzing result'') \<and>
   RecordResultEvent parse_sample (InsertRecord (fault_at StmtResult (ErrStore ''disk full'')))
       \<lparr>database = opened ''scan'' empty_tables\<rparr>
       ((result_event [] ''sqli'' ''form'' ''login'' ''payload'' 200)\<lparr>URL := ''http://example.com/path''\<rparr>)
     = ((), \<lparr>database =
               snd (InsertRecord (fault_at StmtResult (ErrStore ''disk full''))
                      (opened ''scan'' empty_tables)
                      (result_event ''example.com:80'' ''sqli'' ''form'' ''login'' ''payload'' 200
                         \<lparr>URL := ''http://example.com/path''\<rparr>))\<rparr>) \<and>
   fst (RecordResultEvent parse_sample (InsertRecord (fault_at StmtResult (ErrStore ''disk full'')))
          \<lparr>database = opened ''scan'' empty_tables\<rparr>
          ((result_event [] ''sqli'' ''form'' ''login'' ''payload'' 200)\<lparr>URL := ''http://example.com/path''\<rparr>))
     = fst (RecordResultEvent parse_sample (InsertRecord no_fault)
          \<lparr>database = opened ''scan'' empty_tables\<rparr>
          ((result_event [] ''sqli'' ''form'' ''login'' ''payload'' 200)\<lparr>URL := ''http://example.com/path''\<rparr>))"
  by (simp add: RecordResultEvent_def getCorrectSiteName_def parse_sample_def port_defs
        InsertRecord_def resolver_defs store_defs scenario_defs key_defs)

subsection \<open>C3: the files that Close removes\<close>




subsection \<open>C4: commit of all four steps, or rollback\<close>

text \<open>
  C4: \<open>InsertRecord\<close> returns no error only if the transaction began and the four
  steps (site, template, component, result row) succeeded one after the other, and then
  the committed content of the store is the content of the transaction after the fourth
  step. When \<open>InsertRecord\<close> returns an error, which by determinism is the case as soon as
  one step fails, the committed content is what it was before the call: no row of the
  event survives.
\<close>

theorem InsertRecord_commits_all_or_nothing:
  "(fst (InsertRecord env s event) = None \<longrightarrow>
      (\<exists>tx siteID s1 tx1 templateID s2 tx2 componentID s3 tx3 tx4.
         db_Begin env (db s) = Inr tx \<and>
         getSiteID env s tx (siteName event) = (Inr siteID, s1, tx1) \<and>
         getTemplateID env s1 tx1 (TemplateID event) = (Inr templateID, s2, tx2) \<and>
         getComponentID env s2 tx2 siteID (ComponentType event) (ComponentName event)
           = (Inr componentID, s3, tx3) \<and>
         insertFuzzingResult env tx3 componentID templateID (PayloadSent event) (StatusCode event)
           = (None, tx4) \<and>
         committed (db (snd (InsertRecord env s event))) = tx4)) \<and>
   (fst (InsertRecord env s event) \<noteq> None \<longrightarrow>
      committed (db (snd (InsertRecord env s event))) = committed (db s))"
  by (auto simp: InsertRecord_def tx_Commit_def tx_Rollback_def
        dest!: getSiteID_db getTemplateID_db getComponentID_db
        split: sum.splits prod.splits option.splits)

text \<open>
  C4, witness: an event recorded on a new database commits its four rows; the same event
  with a failing insert of the result row leaves the store empty.
\<close>

theorem InsertRecord_commits_all_or_nothing_witness:
  "fst (InsertRecord no_fault (opened ''scan'' empty_tables)
         (result_event ''example.com:80'' ''sqli'' ''form'' ''login'' ''payload'' 200)) = None \<and>
   committed (db (snd (InsertRecord no_fault (opened ''scan'' empty_tables)
         (result_event ''example.com:80'' ''sqli'' ''form'' ''login'' ''payload'' 200)))) = used_tables \<and>
   (\<exists>tx siteID s1 tx1 templateID s2 tx2 componentID s3 tx3.
      db_Begin no_fault (db (opened ''scan'' empty_tables)) = Inr tx \<and>
      getSiteID no_fault (opened ''scan'' empty_tables) tx ''example.com:80'' = (Inr siteID, s1, tx1) \<and>
      getTemplateID no_fault s1 tx1 ''sqli'' = (Inr templateID, s2, tx2) \<and>
      getComponentID no_fault s2 tx2 siteID ''form'' ''login'' = (Inr componentID, s3, tx3) \<and>
      insertFuzzingResult no_fault tx3 componentID templateID ''payload'' 200 = (None, used_tables)) \<and>
   fst (InsertRecord (fault_at StmtResult (ErrStore ''disk full'')) (opened ''scan'' empty_tables)
         (result_event ''example.com:80'' ''sqli'' ''form'' ''login'' ''payload'' 200))
     = Some (Wrap (ErrStore ''disk full'') ''could not insert fuzzing result'') \<and>
   committed (db (snd (InsertRecord (fault_at StmtResult (ErrStore ''disk full''))
         (opened ''scan'' empty_tables)
         (result_event ''example.com:80'' ''sqli'' ''form'' ''login'' ''payload'' 200)))) = empty_tables"
proof -
  let ?e = "ErrStore ''disk full''"
  let ?s0 = "opened ''scan'' empty_tables"
  let ?ev = "result_event ''example.com:80'' ''sqli'' ''form'' ''login'' ''payload'' 200"
  note defs = InsertRecord_def resolver_defs store_defs scenario_defs key_defs
  have ok: "fst (InsertRecord no_fault ?s0 ?ev) = None"
    by (simp add: defs)
  have c: "committed (db (snd (InsertRecord no_fault ?s0 ?ev))) = used_tables"
    by (simp add: defs)
  have ev: "siteName ?ev = ''example.com:80''" "TemplateID ?ev = ''sqli''"
    "ComponentType ?ev = ''form''" "ComponentName ?ev = ''login''"
    "PayloadSent ?ev = ''payload''" "StatusCode ?ev = 200"
    by (simp_all add: result_event_def)
  from InsertRecord_commits_all_or_nothing [of no_fault ?s0 ?ev] ok
  have chain: "\<exists>tx siteID s1 tx1 templateID s2 tx2 componentID s3 tx3.
      db_Begin no_fault (db ?s0) = Inr tx \<and>
      getSiteID no_fault ?s0 tx ''example.com:80'' = (Inr siteID, s1, tx1) \<and>
      getTemplateID no_fault s1 tx1 ''sqli'' = (Inr templateID, s2, tx2) \<and>
      getComponentID no_fault s2 tx2 siteID ''form'' ''login'' = (Inr componentID, s3, tx3) \<and>
      insertFuzzingResult no_fault tx3 componentID templateID ''payload'' 200 = (None, used_tables)"
    unfolding c ev by blast
  have failed: "fst (InsertRecord (fault_at StmtResult ?e) ?s0 ?ev)
      = Some (Wrap ?e ''could not insert fuzzing result'')"
    by (simp add: defs)
  then have "fst (InsertRecord (fault_at StmtResult ?e) ?s0 ?ev) \<noteq> None"
    by simp
  with InsertRecord_commits_all_or_nothing [of "fault_at StmtResult ?e" ?s0 ?ev]
  have "committed (db (snd (InsertRecord (fault_at StmtResult ?e) ?s0 ?ev))) = committed (db ?s0)"
    by blast
  then have rolled: "committed (db (snd (InsertRecord (fault_at StmtResult ?e) ?s0 ?ev))) = empty_tables"
    by (simp add: opened_def)
  from ok c chain failed rolled show ?thesis by blast
qed

subsection \<open>C5: the caches and the committed store\<close>

text \<open>
  C5 (the claim: at every time each cached key maps to the identifier of a row that
  durably exists, an entry being added only once the identifier is durable). The resolvers
  fill the caches inside the transaction, and the rollback does not take the entries back:
  when the insert of the result row fails on a new database, the three caches hold
  identifier 1 for the site, the template and the component of the event, and the
  committed store holds no row at all. No failure of the store's own is needed: on a
  database opened on a used file, an event of a new site and a known template fails on
  the template (C1) after the site was cached, and the site cache holds an identifier,
  2, that the sites table does not.
\<close>

theorem cache_keeps_rolled_back_identifiers:
  "fst (InsertRecord (fault_at StmtResult (ErrStore ''disk full'')) (opened ''scan'' empty_tables)
          (result_event ''example.com:80'' ''sqli'' ''form'' ''login'' ''payload'' 200))
     = Some (Wrap (ErrStore ''disk full'') ''could not insert fuzzing result'') \<and>
   siteIDCache (snd (InsertRecord (fault_at StmtResult (ErrStore ''disk full'')) (opened ''scan'' empty_tables)
          (result_event ''example.com:80'' ''sqli'' ''form'' ''login'' ''payload'' 200))) ''example.com:80'' = Some 1 \<and>
   templateIDCache (snd (InsertRecord (fault_at StmtResult (ErrStore ''disk full'')) (opened ''scan'' empty_tables)
          (result_event ''example.com:80'' ''sqli'' ''form'' ''login'' ''payload'' 200))) ''sqli'' = Some 1 \<and>
   componentIDCache (snd (InsertRecord (fault_at StmtResult (ErrStore ''disk full'')) (opened ''scan'' empty_tables)
          (result_event ''example.com:80'' ''sqli'' ''form'' ''login'' ''payload'' 200))) ''1:form:login'' = Some 1 \<and>
   committed (db (snd (InsertRecord (fault_at StmtResult (ErrStore ''disk full'')) (opened ''scan'' empty_tables)
          (result_event ''example.com:80'' ''sqli'' ''form'' ''login'' ''payload'' 200)))) = empty_tables \<and>
   fst (InsertRecord no_fault (opened ''scan'' used_tables)
          (result_event ''other.example:443'' ''sqli'' ''form'' ''login'' ''payload'' 200))
     = Some (Wrap ErrNoRows ''could not get template_id'') \<and>
   siteIDCache (snd (InsertRecord no_fault (opened ''scan'' used_tables)
          (result_event ''other.example:443'' ''sqli'' ''form'' ''login'' ''payload'' 200)))
       ''other.example:443'' = Some 2 \<and>
   sites (committed (db (snd (InsertRecord no_fault (opened ''scan'' used_tables)
          (result_event ''other.example:443'' ''sqli'' ''form'' ''login'' ''payload'' 200)))))
     = [(1, ''example.com:80'')]"
  by (simp add: InsertRecord_def resolver_defs store_defs scenario_defs key_defs)

subsection \<open>C6: the site name of a URL\<close>

text \<open>
  What \<open>getCorrectSiteName\<close> returns, in terms of the field \<open>Host\<close>: the empty string
  (a value, not an error) for a URL that does not parse; \<open>Host\<close>, which is some host, a
  colon and the port, for a URL with a port; and without a port \<open>Host\<close> followed by
  \<open>:443\<close> for the scheme https, by \<open>:80\<close> for http, \<open>Host\<close> as it is for any other
  scheme. The sample URLs show the five cases.
\<close>

lemma getCorrectSiteName_cases:
  "(url_Parse u = Inl err \<longrightarrow> getCorrectSiteName url_Parse u = []) \<and>
   (url_Parse u = Inr p \<and> url_Port p \<noteq> [] \<longrightarrow>
      (\<exists>h. Host p = h @ '':'' @ url_Port p \<and>
           getCorrectSiteName url_Parse u = h @ '':'' @ url_Port p)) \<and>
   (url_Parse u = Inr p \<and> url_Port p = [] \<and> Scheme p = ''https'' \<longrightarrow>
      getCorrectSiteName url_Parse u = Host p @ '':443'') \<and>
   (url_Parse u = Inr p \<and> url_Port p = [] \<and> Scheme p = ''http'' \<longrightarrow>
      getCorrectSiteName url_Parse u = Host p @ '':80'') \<and>
   (url_Parse u = Inr p \<and> url_Port p = [] \<and> Scheme p \<noteq> ''https'' \<and> Scheme p \<noteq> ''http'' \<longrightarrow>
      getCorrectSiteName url_Parse u = Host p)"
  using url_Port_split [of p] by (auto simp: getCorrectSiteName_def)

lemma getCorrectSiteName_samples:
  "parse_sample ''http://[::1/path'' = Inl (ErrURL ''missing bracket in host'') \<and>
   getCorrectSiteName parse_sample ''http://[::1/path'' = [] \<and>
   parse_sample ''https://example.com:8443/path'' = Inr \<lparr>Scheme = ''https'', Host = ''example.com:8443''\<rparr> \<and>
   url_Port \<lparr>Scheme = ''https'', Host = ''example.com:8443''\<rparr> = ''8443'' \<and>
   getCorrectSiteName parse_sample ''https://example.com:8443/path'' = ''example.com:8443'' \<and>
   parse_sample ''https://example.com/path'' = Inr \<lparr>Scheme = ''https'', Host = ''example.com''\<rparr> \<and>
   url_Port \<lparr>Scheme = ''https'', Host = ''example.com''\<rparr> = [] \<and>
   getCorrectSiteName parse_sample ''https://example.com/path'' = ''example.com:443'' \<and>
   parse_sample ''http://example.com/path'' = Inr \<lparr>Scheme = ''http'', Host = ''example.com''\<rparr> \<and>
   url_Port \<lparr>Scheme = ''http'', Host = ''example.com''\<rparr> = [] \<and>
   getCorrectSiteName parse_sample ''http://example.com/path'' = ''example.com:80'' \<and>
   parse_sample ''ftp://example.com/file'' = Inr \<lparr>Scheme = ''ftp'', Host = ''example.com''\<rparr> \<and>
   url_Port \<lparr>Scheme = ''ftp'', Host = ''example.com''\<rparr> = [] \<and>
   getCorrectSiteName parse_sample ''ftp://example.com/file'' = ''example.com''"
proof -
  let ?bad = "''http://[::1/path''"
  let ?u1 = "''https://example.com:8443/path''" and ?p1 = "\<lparr>Scheme = ''https'', Host = ''example.com:8443''\<rparr>"
  let ?u2 = "''https://example.com/path''" and ?p2 = "\<lparr>Scheme = ''https'', Host = ''example.com''\<rparr>"
  let ?u3 = "''http://example.com/path''" and ?p3 = "\<lparr>Scheme = ''http'', Host = ''example.com''\<rparr>"
  let ?u4 = "''ftp://example.com/file''" and ?p4 = "\<lparr>Scheme = ''ftp'', Host = ''example.com''\<rparr>"
  have h0: "parse_sample ?bad = Inl (ErrURL ''missing bracket in host'')"
    by (simp add: parse_sample_def)
  have h1: "parse_sample ?u1 = Inr ?p1" and q1: "url_Port ?p1 = ''8443''"
    by (simp_all add: parse_sample_def port_defs)
  have h2: "parse_sample ?u2 = Inr ?p2" and q2: "url_Port ?p2 = []"
    by (simp_all add: parse_sample_def port_defs)
  have h3: "parse_sample ?u3 = Inr ?p3" and q3: "url_Port ?p3 = []"
    by (simp_all add: parse_sample_def port_defs)
  have h4: "parse_sample ?u4 = Inr ?p4" and q4: "url_Port ?p4 = []"
    by (simp_all add: parse_sample_def port_defs)
  have c0: "getCorrectSiteName parse_sample ?bad = []"
    using getCorrectSiteName_cases [of parse_sample ?bad "ErrURL ''missing bracket in host''" ?p1] h0
    by blast
  have "\<exists>h. Host ?p1 = h @ '':'' @ url_Port ?p1 \<and>
          getCorrectSiteName parse_sample ?u1 = h @ '':'' @ url_Port ?p1"
    using getCorrectSiteName_cases [of parse_sample ?u1 ErrNoRows ?p1] h1 q1 by simp
  then have c1: "getCorrectSiteName parse_sample ?u1 = ''example.com:8443''"
    by (auto simp: q1)
  have c2: "getCorrectSiteName parse_sample ?u2 = ''example.com:443''"
    using getCorrectSiteName_cases [of parse_sample ?u2 ErrNoRows ?p2] h2 q2 by simp
  have c3: "getCorrectSiteName parse_sample ?u3 = ''example.com:80''"
    using getCorrectSiteName_cases [of parse_sample ?u3 ErrNoRows ?p3] h3 q3 by simp
  have c4: "getCorrectSiteName parse_sample ?u4 = ''example.com''"
    using getCorrectSiteName_cases [of parse_sample ?u4 ErrNoRows ?p4] h4 q4 by simp
  from h0 c0 h1 q1 c1 h2 q2 c2 h3 q3 c3 h4 q4 c4 show ?thesis by blast
qed

text \<open>
  A \<open>Host\<close> without a colon has no port, and is the host name itself unless it starts
  with a bracket: there the site name of the source is the host name followed by the
  default port.
\<close>

lemma LastIndexByte_None: "c \<notin> set xs \<Longrightarrow> LastIndexByte xs c = None"
  by (induction xs) auto

lemma host_without_colon:
  assumes "CHR '':'' \<notin> set (Host p)"
  shows "url_Port p = []"
    and "hd (Host p) \<noteq> CHR ''['' \<Longrightarrow> url_Hostname p = Host p"
  using LastIndexByte_None [OF assms] by (simp_all add: url_Port_def url_Hostname_def)

text \<open>
  C6 (the claim: for every URL the site name is host:port for a URL with a port,
  host:443 for https and host:80 for http without one, the host for another scheme, and
  the empty string for a URL that does not parse). The source announces the site as "the
  host:port combo" and takes the field \<open>Host\<close> for the host. For a URL with a colon and
  no port after the host, \<open>Host\<close> ends with that colon: the port is empty, the host name
  is \<open>example.com\<close>, and the site name gets two colons, \<open>example.com::80\<close> for http and
  \<open>example.com::443\<close> for https, where the claim has \<open>example.com:80\<close> and
  \<open>example.com:443\<close>.
\<close>

theorem getCorrectSiteName_empty_port:
  "parse_sample ''http://example.com:/path'' = Inr \<lparr>Scheme = ''http'', Host = ''example.com:''\<rparr> \<and>
   url_Port \<lparr>Scheme = ''http'', Host = ''example.com:''\<rparr> = [] \<and>
   url_Hostname \<lparr>Scheme = ''http'', Host = ''example.com:''\<rparr> = ''example.com'' \<and>
   getCorrectSiteName parse_sample ''http://example.com:/path'' = ''example.com::80'' \<and>
   getCorrectSiteName parse_sample ''http://example.com:/path''
     \<noteq> url_Hostname \<lparr>Scheme = ''http'', Host = ''example.com:''\<rparr> @ '':80'' \<and>
   parse_sample ''https://example.com:/path'' = Inr \<lparr>Scheme = ''https'', Host = ''example.com:''\<rparr> \<and>
   url_Port \<lparr>Scheme = ''https'', Host = ''example.com:''\<rparr> = [] \<and>
   url_Hostname \<lparr>Scheme = ''https'', Host = ''example.com:''\<rparr> = ''example.com'' \<and>
   getCorrectSiteName parse_sample ''https://example.com:/path'' = ''example.com::443'' \<and>
   getCorrectSiteName parse_sample ''https://example.com:/path''
     \<noteq> url_Hostname \<lparr>Scheme = ''https'', Host = ''example.com:''\<rparr> @ '':443''"
  by (simp add: getCorrectSiteName_def parse_sample_def port_defs url_Hostname_def)

subsection \<open>C7: recording after the close\<close>

lemma InsertRecord_closed:
  "closed (db s) \<Longrightarrow> InsertRecord env s event = (Some (Wrap ErrDBClosed ''could not begin transaction''), s)"
  by (simp add: InsertRecord_def db_Begin_def)

text \<open>
  C7, as amended: after \<open>Close\<close>, every \<open>InsertRecord\<close> on the database fails with the
  error of the closed handle, wrapped as "could not begin transaction", whatever the
  event and the environment, and leaves the database as it is; so does each call of any
  sequence of them, whether or not the removal of the side files succeeded. The record methods of the tracker have no result and surface nothing.
\<close>

theorem InsertRecords_after_Close:
  "InsertRecords (fst (Close remove_env s fs)) calls =
     (replicate (length calls) (Some (Wrap ErrDBClosed ''could not begin transaction'')),
      fst (Close remove_env s fs))"
proof (induction calls)
  case Nil
  show ?case by simp
next
  case (Cons c calls)
  obtain env event where c: "c = (env, event)" by (cases c)
  have "closed (db (fst (Close remove_env s fs)))" by (simp add: Close_def split: prod.splits)
  then show ?case using Cons.IH by (simp add: c InsertRecord_closed)
qed

text \<open>
  C7, counterexample to the claim as stated (after the close a record call fails with an
  error surfaced to its caller): on a closed tracker over the SQLite database,
  \<open>InsertRecord\<close> fails, and \<open>RecordResultEvent\<close> returns \<open>()\<close> and the tracker
  unchanged.
\<close>

theorem RecordResultEvent_after_Close_is_silent:
  "fst (InsertRecord no_fault
          (database (fst (Tracker_Close (Close no_remove_failure) \<lparr>database = opened ''scan'' empty_tables\<rparr> {})))
          (result_event ''example.com:80'' ''sqli'' ''form'' ''login'' ''payload'' 200))
     = Some (Wrap ErrDBClosed ''could not begin transaction'') \<and>
   RecordResultEvent parse_sample (InsertRecord no_fault)
       (fst (Tracker_Close (Close no_remove_failure) \<lparr>database = opened ''scan'' empty_tables\<rparr> {}))
       ((result_event [] ''sqli'' ''form'' ''login'' ''payload'' 200)\<lparr>URL := ''http://example.com/path''\<rparr>)
     = ((), fst (Tracker_Close (Close no_remove_failure) \<lparr>database = opened ''scan'' empty_tables\<rparr> {}))"
  by (simp add: RecordResultEvent_def Tracker_Close_def Close_def os_Remove_def InsertRecord_def
        db_Begin_def)

subsection \<open>C8: a resolved key is answered from the cache\<close>

text \<open>
  C8: once a resolver has returned an identifier for a key, the cache of its dimension
  holds the identifier under that key, at once and in every later state of the database.
  Every later resolution of the key, in any transaction and environment, returns the
  cached identifier and leaves caches, handle and transaction untouched: it runs no
  statement against the store. This holds for sites, templates and components (for
  components the cache is read under the component key).
\<close>

theorem resolved_key_is_answered_from_cache:
  "(getSiteID env s tx site_name = (Inr siteID, s1, tx1) \<and> later s1 s2 \<longrightarrow>
      siteIDCache s1 site_name = Some siteID \<and>
      siteIDCache s2 site_name = Some siteID \<and>
      getSiteID env' s2 tx' site_name = (Inr siteID, s2, tx')) \<and>
   (getTemplateID env s tx templateName = (Inr templateID, s1, tx1) \<and> later s1 s2 \<longrightarrow>
      templateIDCache s1 templateName = Some templateID \<and>
      templateIDCache s2 templateName = Some templateID \<and>
      getTemplateID env' s2 tx' templateName = (Inr templateID, s2, tx')) \<and>
   (getComponentID env s tx site componentType componentName = (Inr componentID, s1, tx1) \<and>
    later s1 s2 \<longrightarrow>
      componentIDCache s1 (component_key site componentType componentName) = Some componentID \<and>
      componentIDCache s2 (component_key site componentType componentName) = Some componentID \<and>
      getComponentID env' s2 tx' site componentType componentName = (Inr componentID, s2, tx'))"
proof (intro conjI impI)
  assume a: "getSiteID env s tx site_name = (Inr siteID, s1, tx1) \<and> later s1 s2"
  then show c1: "siteIDCache s1 site_name = Some siteID"
    by (blast dest: getSiteID_cached)
  from a have "caches_le s1 s2" by (blast dest: later_caches)
  with c1 show c2: "siteIDCache s2 site_name = Some siteID"
    by (auto simp: caches_le_def dest: map_le_Some)
  then show "getSiteID env' s2 tx' site_name = (Inr siteID, s2, tx')"
    by (simp add: getSiteID_def)
next
  assume a: "getTemplateID env s tx templateName = (Inr templateID, s1, tx1) \<and> later s1 s2"
  then show c1: "templateIDCache s1 templateName = Some templateID"
    by (blast dest: getTemplateID_cached)
  from a have "caches_le s1 s2" by (blast dest: later_caches)
  with c1 show c2: "templateIDCache s2 templateName = Some templateID"
    by (auto simp: caches_le_def dest: map_le_Some)
  then show "getTemplateID env' s2 tx' templateName = (Inr templateID, s2, tx')"
    by (simp add: getTemplateID_def)
next
  assume a: "getComponentID env s tx site componentType componentName = (Inr componentID, s1, tx1) \<and>
    later s1 s2"
  then show c1: "componentIDCache s1 (component_key site componentType componentName) = Some componentID"
    by (blast dest: getComponentID_cached)
  from a have "caches_le s1 s2" by (blast dest: later_caches)
  with c1 show c2: "componentIDCache s2 (component_key site componentType componentName) = Some componentID"
    by (auto simp: caches_le_def dest: map_le_Some)
  then show "getComponentID env' s2 tx' site componentType componentName = (Inr componentID, s2, tx')"
    by (simp add: getComponentID_def)
qed

text \<open>
  C8, witness: the three resolutions made while an event is recorded on a new database,
  the three cache entries once the event is committed, and the same three resolutions
  then.
\<close>

theorem resolved_key_is_answered_from_cache_witness:
  "fst (getSiteID no_fault (opened ''scan'' empty_tables) empty_tables ''example.com:80'') = Inr 1 \<and>
   later (fst (snd (getSiteID no_fault (opened ''scan'' empty_tables) empty_tables ''example.com:80'')))
     (snd (InsertRecord no_fault (opened ''scan'' empty_tables)
        (result_event ''example.com:80'' ''sqli'' ''form'' ''login'' ''payload'' 200))) \<and>
   getSiteID no_fault
       (snd (InsertRecord no_fault (opened ''scan'' empty_tables)
          (result_event ''example.com:80'' ''sqli'' ''form'' ''login'' ''payload'' 200)))
       used_tables ''example.com:80''
     = (Inr 1,
        snd (InsertRecord no_fault (opened ''scan'' empty_tables)
          (result_event ''example.com:80'' ''sqli'' ''form'' ''login'' ''payload'' 200)),
        used_tables) \<and>
   getTemplateID no_fault
       (snd (InsertRecord no_fault (opened ''scan'' empty_tables)
          (result_event ''example.com:80'' ''sqli'' ''form'' ''login'' ''payload'' 200)))
       used_tables ''sqli''
     = (Inr 1,
        snd (InsertRecord no_fault (opened ''scan'' empty_tables)
          (result_event ''example.com:80'' ''sqli'' ''form'' ''login'' ''payload'' 200)),
        used_tables) \<and>
   getComponentID no_fault
       (snd (InsertRecord no_fault (opened ''scan'' empty_tables)
          (result_event ''example.com:80'' ''sqli'' ''form'' ''login'' ''payload'' 200)))
       used_tables 1 ''form'' ''login''
     = (Inr 1,
        snd (InsertRecord no_fault (opened ''scan'' empty_tables)
          (result_event ''example.com:80'' ''sqli'' ''form'' ''login'' ''payload'' 200)),
        used_tables) \<and>
   siteIDCache (snd (InsertRecord no_fault (opened ''scan'' empty_tables)
          (result_event ''example.com:80'' ''sqli'' ''form'' ''login'' ''payload'' 200)))
       ''example.com:80'' = Some 1 \<and>
   templateIDCache (snd (InsertRecord no_fault (opened ''scan'' empty_tables)
          (result_event ''example.com:80'' ''sqli'' ''form'' ''login'' ''payload'' 200)))
       ''sqli'' = Some 1 \<and>
   componentIDCache (snd (InsertRecord no_fault (opened ''scan'' empty_tables)
          (result_event ''example.com:80'' ''sqli'' ''form'' ''login'' ''payload'' 200)))
       (component_key 1 ''form'' ''login'') = Some 1"
proof -
  let ?s0 = "opened ''scan'' empty_tables"
  let ?ev = "result_event ''example.com:80'' ''sqli'' ''form'' ''login'' ''payload'' 200"
  let ?s1 = "?s0\<lparr>siteIDCache := [''example.com:80'' \<mapsto> 1]\<rparr>"
  let ?tx1 = "empty_tables\<lparr>sites := [(1, ''example.com:80'')]\<rparr>"
  let ?s2 = "?s1\<lparr>templateIDCache := [''sqli'' \<mapsto> 1]\<rparr>"
  let ?tx2 = "?tx1\<lparr>templates := [(1, ''sqli'')]\<rparr>"
  let ?s3 = "?s2\<lparr>componentIDCache := [''1:form:login'' \<mapsto> 1]\<rparr>"
  let ?tx3 = "?tx2\<lparr>components := [(1, 1, ''form'', ''login'')]\<rparr>"
  let ?sA = "snd (InsertRecord no_fault ?s0 ?ev)"
  note defs = resolver_defs store_defs scenario_defs key_defs
  have g1: "getSiteID no_fault ?s0 empty_tables ''example.com:80'' = (Inr 1, ?s1, ?tx1)"
    by (simp add: defs)
  have g2: "getTemplateID no_fault ?s1 ?tx1 ''sqli'' = (Inr 1, ?s2, ?tx2)"
    by (simp add: defs)
  have g3: "getComponentID no_fault ?s2 ?tx2 1 ''form'' ''login'' = (Inr 1, ?s3, ?tx3)"
    by (simp add: defs)
  have sA: "?sA = ?s3\<lparr>db := \<lparr>committed = used_tables, closed = False\<rparr>\<rparr>"
    by (simp add: InsertRecord_def defs)
  have l3: "later ?s3 ?sA"
    unfolding sA by (rule later_db [OF later_refl])
  have l2: "later ?s2 ?sA"
    unfolding sA by (rule later_db [OF later_getComponentID [OF later_refl g3]])
  have l1: "later ?s1 ?sA"
    unfolding sA
    by (rule later_db [OF later_getComponentID [OF later_getTemplateID [OF later_refl g2] g3]])
  note inst = resolved_key_is_answered_from_cache [where env' = no_fault and tx' = used_tables
      and ?s2.0 = ?sA]
  from inst [where env = no_fault and s = ?s0 and tx = empty_tables and site_name = "''example.com:80''"
      and siteID = 1 and ?s1.0 = ?s1 and ?tx1.0 = ?tx1] g1 l1
  have c1: "getSiteID no_fault ?sA used_tables ''example.com:80'' = (Inr 1, ?sA, used_tables)"
    and k1: "siteIDCache ?sA ''example.com:80'' = Some 1"
    by blast+
  from inst [where env = no_fault and s = ?s1 and tx = ?tx1 and templateName = "''sqli''"
      and templateID = 1 and ?s1.0 = ?s2 and ?tx1.0 = ?tx2] g2 l2
  have c2: "getTemplateID no_fault ?sA used_tables ''sqli'' = (Inr 1, ?sA, used_tables)"
    and k2: "templateIDCache ?sA ''sqli'' = Some 1"
    by blast+
  from inst [where env = no_fault and s = ?s2 and tx = ?tx2 and site = 1 and componentType = "''form''"
      and componentName = "''login''" and componentID = 1 and ?s1.0 = ?s3 and ?tx1.0 = ?tx3] g3 l3
  have c3: "getComponentID no_fault ?sA used_tables 1 ''form'' ''login'' = (Inr 1, ?sA, used_tables)"
    and k3: "componentIDCache ?sA (component_key 1 ''form'' ''login'') = Some 1"
    by blast+
  from g1 l1 c1 c2 c3 k1 k2 k3 show ?thesis by simp
qed

subsection \<open>C9: components of two sites\<close>

text \<open>
  A new identifier is not in its table. While every entry of the component cache is
  backed by a row of the transaction, a successful resolution keeps it so, and the
  components of two distinct sites get distinct identifiers. A database just opened is
  in this state.
\<close>

lemma fold_max_ge: "(a::int) \<le> fold max ids a \<and> (\<forall>x\<in>set ids. x \<le> fold max ids a)"
proof (induction ids arbitrary: a)
  case Nil
  show ?case by simp
next
  case (Cons i ids)
  from Cons.IH [of "max i a"] show ?case by auto
qed

lemma next_id_fresh: "next_id ids \<notin> set ids"
proof
  assume "next_id ids \<in> set ids"
  with fold_max_ge [of 0 ids] have "next_id ids \<le> fold max ids 0" by blast
  then show False by (simp add: next_id_def)
qed

lemma miss_result:
  assumes "componentIDCache s (component_key i t n) = None"
    and "getComponentID env s tx i t n = (Inr c, s', tx')"
  shows "c = next_id (map fst (components tx)) \<and>
     s' = s\<lparr>componentIDCache := (componentIDCache s)(component_key i t n \<mapsto> c)\<rparr> \<and>
     tx' = tx\<lparr>components := components tx @ [(c, i, t, n)]\<rparr>"
  using assms
  by (auto simp: getComponentID_def insert_component_def Let_def split: option.splits if_splits)

lemma getComponentID_backed:
  assumes "components_backed s tx"
    and "getComponentID env s tx i t n = (Inr c, s', tx')"
  shows "components_backed s' tx' \<and> set (components tx) \<subseteq> set (components tx') \<and>
         componentIDCache s' (component_key i t n) = Some c"
proof (cases "componentIDCache s (component_key i t n)")
  case (Some c')
  with assms show ?thesis by (simp add: getComponentID_def)
next
  case None
  let ?c = "next_id (map fst (components tx))"
  from None assms(2) have c: "c = ?c"
    and s': "s' = s\<lparr>componentIDCache := (componentIDCache s)(component_key i t n \<mapsto> ?c)\<rparr>"
    and tx': "tx' = tx\<lparr>components := components tx @ [(?c, i, t, n)]\<rparr>"
    using miss_result [OF None assms(2)] by simp_all
  have fresh: "?c \<notin> set (map fst (components tx))" by (rule next_id_fresh)
  from assms(1) have old: "distinct (map fst (components tx))"
    and rows: "\<And>key cid. componentIDCache s key = Some cid \<Longrightarrow>
      \<exists>a b d. (cid, a, b, d) \<in> set (components tx) \<and> component_key a b d = key"
    unfolding components_backed_def by blast+
  have comps: "components tx' = components tx @ [(?c, i, t, n)]" by (simp add: tx')
  have cache: "componentIDCache s' = (componentIDCache s)(component_key i t n \<mapsto> ?c)"
    by (simp add: s')
  from old fresh have d: "distinct (map fst (components tx'))" by (simp add: comps)
  have k: "\<exists>a b d. (cid, a, b, d) \<in> set (components tx') \<and> component_key a b d = key"
    if hit: "componentIDCache s' key = Some cid" for key cid
  proof (cases "key = component_key i t n")
    case True
    with hit have "cid = ?c" by (simp add: cache)
    with True have "(cid, i, t, n) \<in> set (components tx') \<and> component_key i t n = key"
      by (simp add: comps)
    then show ?thesis by blast
  next
    case False
    with hit have "componentIDCache s key = Some cid" by (simp add: cache)
    from rows [OF this] obtain a b d where "(cid, a, b, d) \<in> set (components tx)"
      and "component_key a b d = key" by blast
    then have "(cid, a, b, d) \<in> set (components tx') \<and> component_key a b d = key"
      by (simp add: comps)
    then show ?thesis by blast
  qed
  from d k have "components_backed s' tx'" unfolding components_backed_def by blast
  moreover have "set (components tx) \<subseteq> set (components tx')" by (auto simp: comps)
  moreover have "componentIDCache s' (component_key i t n) = Some c" by (simp add: cache c)
  ultimately show ?thesis by blast
qed

lemma components_of_two_sites_differ:
  assumes backed: "components_backed s tx"
    and sites: "siteID1 \<noteq> siteID2"
    and r1: "getComponentID env s tx siteID1 t n = (Inr c1, s1, tx1)"
    and r2: "getComponentID env' s1 tx1 siteID2 t n = (Inr c2, s2, tx2)"
  shows "c1 \<noteq> c2"
proof
  assume eq: "c1 = c2"
  from getComponentID_backed [OF backed r1]
  have b1: "components_backed s1 tx1"
    and k1: "componentIDCache s1 (component_key siteID1 t n) = Some c1" by simp_all
  from getComponentID_backed [OF b1 r2]
  have b2: "components_backed s2 tx2" and sub: "set (components tx1) \<subseteq> set (components tx2)"
    and k2: "componentIDCache s2 (component_key siteID2 t n) = Some c2" by simp_all
  from b1 k1 obtain i1 t1 n1 where row1: "(c1, i1, t1, n1) \<in> set (components tx1)"
    and key1: "component_key i1 t1 n1 = component_key siteID1 t n"
    unfolding components_backed_def by blast
  from b2 k2 obtain i2 t2 n2 where row2: "(c2, i2, t2, n2) \<in> set (components tx2)"
    and key2: "component_key i2 t2 n2 = component_key siteID2 t n"
    unfolding components_backed_def by blast
  from b2 have "distinct (map fst (components tx2))" by (simp add: components_backed_def)
  moreover from row1 sub have "(c1, i1, t1, n1) \<in> set (components tx2)" by (rule subsetD [rotated])
  moreover from row2 eq have "(c1, i2, t2, n2) \<in> set (components tx2)" by simp
  ultimately have "(i1, t1, n1) = (i2, t2, n2)" by (rule eq_key_imp_eq_value)
  with key1 key2 have "component_key siteID1 t n = component_key siteID2 t n" by simp
  then have "siteID1 = siteID2" by (rule component_key_site_inj)
  with sites show False by simp
qed

lemma opened_components_backed:
  "distinct (map fst (components t)) \<Longrightarrow> components_backed (opened scan_name t) t"
  by (simp add: components_backed_def opened_def)

text \<open>
  C9 (the claim: under two distinct site identifiers, the same component type and name
  yield two distinct component identifiers). It holds as long as the component cache is
  backed by the table, and fails after a rollback, through the cache entries of C5. Of the three events of \<open>scoping_calls\<close>, the second registers
  \<open>login\<close> of type \<open>form\<close> under site 2 as component 2 and is rolled back, the third
  registers the same component under site 1 and the store hands out 2 again: the
  resolutions under site 1 and under site 2 both return component 2.
\<close>

theorem stale_component_shared_by_two_sites:
  "fst (InsertRecords (opened ''scan'' empty_tables) scoping_calls)
     = [None, Some (Wrap (ErrStore ''disk full'') ''could not insert fuzzing result''), None] \<and>
   fst (getComponentID no_fault (snd (InsertRecords (opened ''scan'' empty_tables) scoping_calls))
          (committed (db (snd (InsertRecords (opened ''scan'' empty_tables) scoping_calls))))
          1 ''form'' ''login'') = Inr 2 \<and>
   fst (getComponentID no_fault (snd (InsertRecords (opened ''scan'' empty_tables) scoping_calls))
          (committed (db (snd (InsertRecords (opened ''scan'' empty_tables) scoping_calls))))
          2 ''form'' ''login'') = Inr 2 \<and>
   components (committed (db (snd (InsertRecords (opened ''scan'' empty_tables) scoping_calls))))
     = [(1, 1, ''form'', ''search''), (2, 1, ''form'', ''login'')]"
  by (simp add: scoping_calls_def InsertRecord_def resolver_defs store_defs scenario_defs key_defs)

subsection \<open>C10: collisions of the component key\<close>

text \<open>
  C10: the key joins identifier, type and name with colons, so \<open>(1, a:b, c)\<close> and
  \<open>(1, a, b:c)\<close> have one key; whenever two triples have one key, resolving the second
  after the first returns the identifier of the first from the cache, without a statement
  against the store; two triples whose types have no colon have one key only if they are
  equal; and every triple whose type has a colon shares its key with another triple.
\<close>

theorem component_key_collides:
  "component_key 1 ''a:b'' ''c'' = component_key 1 ''a'' ''b:c'' \<and>
   (getComponentID env s tx siteID1 type1 name1 = (Inr componentID, s1, tx1) \<and>
    component_key siteID2 type2 name2 = component_key siteID1 type1 name1 \<longrightarrow>
      getComponentID env' s1 tx' siteID2 type2 name2 = (Inr componentID, s1, tx')) \<and>
   (CHR '':'' \<notin> set typeA \<and> CHR '':'' \<notin> set typeB \<and>
    component_key siteA typeA nameA = component_key siteB typeB nameB \<longrightarrow>
      siteA = siteB \<and> typeA = typeB \<and> nameA = nameB) \<and>
   (CHR '':'' \<in> set typeC \<longrightarrow>
      (\<exists>type' name'. (type', name') \<noteq> (typeC, nameC) \<and>
         component_key siteC type' name' = component_key siteC typeC nameC))"
proof (intro conjI impI)
  show "component_key 1 ''a:b'' ''c'' = component_key 1 ''a'' ''b:c''"
    by (simp add: component_key_def)
next
  assume a: "getComponentID env s tx siteID1 type1 name1 = (Inr componentID, s1, tx1) \<and>
    component_key siteID2 type2 name2 = component_key siteID1 type1 name1"
  then have "componentIDCache s1 (component_key siteID2 type2 name2) = Some componentID"
    by (auto dest: getComponentID_cached)
  then show "getComponentID env' s1 tx' siteID2 type2 name2 = (Inr componentID, s1, tx')"
    by (simp add: getComponentID_def)
next
  assume a: "CHR '':'' \<notin> set typeA \<and> CHR '':'' \<notin> set typeB \<and>
    component_key siteA typeA nameA = component_key siteB typeB nameB"
  then have "siteA = siteB \<and> typeA = typeB \<and> nameA = nameB"
    by (blast dest: component_key_inj)
  then show "siteA = siteB" and "typeA = typeB" and "nameA = nameB" by simp_all
next
  assume "CHR '':'' \<in> set typeC"
  then show "\<exists>type' name'. (type', name') \<noteq> (typeC, nameC) \<and>
         component_key siteC type' name' = component_key siteC typeC nameC"
    by (rule component_key_collision)
qed

text \<open>
  C10, witness: the two triples above on a new database, two equal triples of type
  \<open>form\<close>, and the type \<open>a:b\<close>.
\<close>

theorem component_key_collides_witness:
  "getComponentID no_fault (opened ''scan'' empty_tables) empty_tables 1 ''a:b'' ''c''
     = (Inr 1, (opened ''scan'' empty_tables)\<lparr>componentIDCache := [''1:a:b:c'' \<mapsto> 1]\<rparr>,
        empty_tables\<lparr>components := [(1, 1, ''a:b'', ''c'')]\<rparr>) \<and>
   component_key 1 ''a'' ''b:c'' = component_key 1 ''a:b'' ''c'' \<and>
   getComponentID no_fault ((opened ''scan'' empty_tables)\<lparr>componentIDCache := [''1:a:b:c'' \<mapsto> 1]\<rparr>)
       (empty_tables\<lparr>components := [(1, 1, ''a:b'', ''c'')]\<rparr>) 1 ''a'' ''b:c''
     = (Inr 1, (opened ''scan'' empty_tables)\<lparr>componentIDCache := [''1:a:b:c'' \<mapsto> 1]\<rparr>,
        empty_tables\<lparr>components := [(1, 1, ''a:b'', ''c'')]\<rparr>) \<and>
   CHR '':'' \<notin> set ''form'' \<and>
   component_key 1 ''form'' ''login'' = component_key 1 ''form'' ''login'' \<and>
   CHR '':'' \<in> set ''a:b'' \<and>
   (\<exists>type' name'. (type', name') \<noteq> (''a:b'', ''c'') \<and>
      component_key 1 type' name' = component_key 1 ''a:b'' ''c'')"
proof -
  let ?s0 = "opened ''scan'' empty_tables"
  let ?s1 = "?s0\<lparr>componentIDCache := [''1:a:b:c'' \<mapsto> 1]\<rparr>"
  let ?tx1 = "empty_tables\<lparr>components := [(1, 1, ''a:b'', ''c'')]\<rparr>"
  have h1: "getComponentID no_fault ?s0 empty_tables 1 ''a:b'' ''c'' = (Inr 1, ?s1, ?tx1)"
    by (simp add: resolver_defs store_defs scenario_defs key_defs)
  have h2: "component_key 1 ''a'' ''b:c'' = component_key 1 ''a:b'' ''c''"
    by (simp add: component_key_def)
  have h3: "CHR '':'' \<notin> set ''form''" by simp
  have h4: "CHR '':'' \<in> set ''a:b''" by simp
  note inst = component_key_collides [where env = no_fault and s = ?s0 and tx = empty_tables
      and ?siteID1.0 = 1 and ?type1.0 = "''a:b''" and ?name1.0 = "''c''" and componentID = 1
      and ?s1.0 = ?s1 and ?tx1.0 = ?tx1 and ?siteID2.0 = 1 and ?type2.0 = "''a''"
      and ?name2.0 = "''b:c''" and env' = no_fault and tx' = ?tx1
      and typeA = "''form''" and typeB = "''form''" and siteA = 1 and siteB = 1
      and nameA = "''login''" and nameB = "''login''"
      and typeC = "''a:b''" and nameC = "''c''" and siteC = 1]
  from inst h1 h2 have c1: "getComponentID no_fault ?s1 ?tx1 1 ''a'' ''b:c'' = (Inr 1, ?s1, ?tx1)"
    by blast
  from inst h4 have c2: "\<exists>type' name'. (type', name') \<noteq> (''a:b'', ''c'') \<and>
      component_key 1 type' name' = component_key 1 ''a:b'' ''c''"
    by blast
  from h1 h2 c1 h3 h4 c2 show ?thesis by blast
qed

end
